theory Spec2Isabelle
  imports Complex_Main "HOL-Library.Log_Nat"
begin

section \<open>Data model of rs-benchmark.py\<close>

text \<open>
  The benchmark is a single command, \<open>insert\<close>, that talks to a database server, the
  system clock, the pseudo random generator, an object store and the console. All of them
  are fields of one record, \<open>world\<close>, that every operation takes and returns.
  Python integers are \<open>int\<close>. A Python float is the rational number it denotes, and every
  float operation of the program (\<open>-\<close>, \<open>+\<close>, \<open>/\<close>, \<open>round\<close>, and \<open>time()\<close> itself) returns
  its exact result rounded to the nearest double, \<open>to_double\<close>.
\<close>

datatype scenario = All | Classic | Bulk | Copy

text \<open>One synthetic row: the 5-tuple built in each of the three loops of \<open>insert\<close>.\<close>

record row =
  my_integer :: int
  my_smallint :: int
  my_decimal :: rat
  my_timestamp :: rat
  my_varchar :: string

datatype column_type =
    BigintIdentity int int
  | Integer
  | Smallint
  | Decimal nat nat
  | Timestamp
  | Varchar nat

type_synonym column = "string \<times> column_type"

record table =
  schema :: "column list"
  contents :: "row list"

text \<open>
  The output file of the copy scenario,
  \<open>f"{copy_s3_path.rstrip('/')}/_rs_benchmark/{now:%Y%m%d-%H:%M:%S}.csv"\<close>:
  the stripped prefix and the time stamp cut to whole seconds.
\<close>

datatype location = CsvObject string int

datatype cell = IntCell int | NumCell rat | TimeCell rat | TextCell string

record csv_file =
  delimiter :: char
  file_lines :: "cell list list"

text \<open>
  The SQL texts of the program. A statement sent to the server is a text together with
  the row values inlined into it (bulk) or bound to its placeholders (classic).
\<close>

datatype sql =
    DropTable string
  | CreateTempTable string "column list"
  | InsertValues string "string list"
  | InsertParams string "string list"
  | CopyCsv string location string char nat

type_synonym statement = "sql \<times> row list"

datatype db_error = UndefinedTable | DuplicateTable | SyntaxError | LoadError

text \<open>
  What the program can raise: \<open>sys.exit\<close>, the use of \<open>None\<close> as a connection, an error of
  the server, a refused connection, a failed password prompt. Interrupts from outside
  (\<open>KeyboardInterrupt\<close>) are not modelled.
\<close>

datatype exn =
    SystemExit int
  | AttributeError
  | DatabaseError db_error
  | OperationalError
  | EOFError

text \<open>\<open>except Exception\<close> does not catch \<open>SystemExit\<close>.\<close>

fun is_Exception :: "exn \<Rightarrow> bool" where
  "is_Exception (SystemExit _) = False"
| "is_Exception _ = True"

record conn_request =
  req_dbname :: string
  req_host :: string
  req_port :: int
  req_user :: string
  req_password :: string
  req_sslmode :: string

datatype connection = Connection conn_request

text \<open>The second argument \<open>data\<close> of \<open>_execute\<close>: absent, one row tuple, or a tuple of row tuples.\<close>

datatype data_arg = NoData | RowData row | BulkData "row list"

datatype message =
    Debug_connect string string string
  | Error_connect exn
  | Debug_drop_ignored exn
  | Info_create_table rat
  | Debug_insert scenario int
  | Debug_classic
  | Timing scenario int rat rat
  | Clamp_warning int
  | Params_required

record world =
  prng :: "nat \<Rightarrow> nat \<Rightarrow> nat"
  entropy :: "nat \<Rightarrow> nat"
  drawn :: nat
  clock :: "nat \<Rightarrow> rat"
  reads :: nat
  tables :: "string \<rightharpoonup> table"
  storage :: "location \<rightharpoonup> csv_file"
  executed :: "statement list"
  console :: "message list"
  autocommit :: bool
  logger_debug :: bool
  password :: "string option"
  env_password :: "string option"
  prompt_reply :: "string option"
  dial :: "conn_request \<Rightarrow> bool"

record insert_args =
  db_host :: string
  db_port :: int
  db_name :: string
  db_user :: string
  copy_s3_path :: "string option"
  copy_iam_role :: "string option"
  nbr_of_records :: int
  scenario :: scenario
  debug :: bool

definition table_name :: string where
  "table_name = ''_rs_benchmarking''"

section \<open>The environment: random numbers, clock, logger\<close>

text \<open>
  The Mersenne Twister is not modelled. \<open>prng w s\<close> is the stream of raw draws the generator
  yields after \<open>seed(s)\<close>; \<open>entropy\<close> is the current stream and \<open>drawn\<close> the number of draws
  taken from it. \<open>_randbelow(n)\<close> returns a value below \<open>n\<close>; \<open>randint(a, b)\<close> is
  \<open>a + _randbelow(b - a + 1)\<close>, both ends included; \<open>random()\<close> is \<open>k / 2^53\<close> for a
  53-bit \<open>k\<close>; \<open>choice(seq)\<close> is \<open>seq[_randbelow(len(seq))]\<close>. The program calls them
  with constants only: \<open>randint(0, 1e9)\<close>, \<open>randint(0, 1e3)\<close> (the float bounds are taken as
  the integers they denote) and \<open>choice\<close> of the 26 letters, so that the errors Python
  raises for an empty range or sequence cannot occur and are not modelled.
\<close>

definition seed :: "nat \<Rightarrow> world \<Rightarrow> world" where
  "seed s w = w\<lparr>entropy := prng w s, drawn := 0\<rparr>"

definition draw :: "world \<Rightarrow> nat \<times> world" where
  "draw w = (entropy w (drawn w), w\<lparr>drawn := drawn w + 1\<rparr>)"

definition randbelow :: "nat \<Rightarrow> world \<Rightarrow> nat \<times> world" where
  "randbelow n w = (case draw w of (k, w') \<Rightarrow> (k mod n, w'))"

definition randint :: "int \<Rightarrow> int \<Rightarrow> world \<Rightarrow> int \<times> world" where
  "randint a b w = (case randbelow (nat (b - a + 1)) w of (k, w') \<Rightarrow> (a + int k, w'))"

definition py_random :: "world \<Rightarrow> rat \<times> world" where
  "py_random w = (case randbelow (2 ^ 53) w of (k, w') \<Rightarrow> (of_nat k / 2 ^ 53, w'))"

definition choice :: "'a list \<Rightarrow> world \<Rightarrow> 'a \<times> world" where
  "choice xs w = (case randbelow (length xs) w of (k, w') \<Rightarrow> (xs ! k, w'))"

definition ascii_lowercase :: string where
  "ascii_lowercase = ''abcdefghijklmnopqrstuvwxyz''"

text \<open>
  Doubles (IEEE 754 binary64). \<open>ilog2 x\<close> is the binary exponent of a positive \<open>x\<close>:
  \<open>2^e \<le> x < 2^(e+1)\<close>. \<open>to_double x\<close> rounds \<open>x\<close> to the nearest multiple of the spacing of
  the doubles around it, \<open>2^(e-52)\<close> and at least \<open>2^-1074\<close>, ties to the even multiple.
  Overflow to infinity is left out: the numbers of the program are clock readings in
  seconds and their differences, sums and quotients.
\<close>

definition ilog2 :: "rat \<Rightarrow> int" where
  "ilog2 x =
     (case quotient_of x of
        (p, q) \<Rightarrow>
          (let e = bitlen p - bitlen q
           in if power_int 2 e \<le> x then e else e - 1))"

definition round_half_even :: "rat \<Rightarrow> int" where
  "round_half_even x =
     (let f = \<lfloor>x\<rfloor>; d = x - of_int f
      in if d < 1 / 2 then f else if 1 / 2 < d then f + 1 else if even f then f else f + 1)"

definition to_double :: "rat \<Rightarrow> rat" where
  "to_double x =
     (if x = 0 then 0
      else let e = max (ilog2 \<bar>x\<bar>) (- 1022);
               q = power_int 2 (e - 52)
           in of_int (round_half_even (x / q)) * q)"

text \<open>Float subtraction, addition and division (an \<open>int\<close> operand is converted exactly).\<close>

definition fsub :: "rat \<Rightarrow> rat \<Rightarrow> rat" where
  "fsub a b = to_double (a - b)"

definition fadd :: "rat \<Rightarrow> rat \<Rightarrow> rat" where
  "fadd a b = to_double (a + b)"

definition fdiv :: "rat \<Rightarrow> rat \<Rightarrow> rat" where
  "fdiv a b = to_double (a / b)"

text \<open>
  \<open>time()\<close> returns the next reading of the clock tape as a double; \<open>datetime.now()\<close> reads
  the same clock.
\<close>

definition time :: "world \<Rightarrow> rat \<times> world" where
  "time w = (to_double (clock w (reads w)), w\<lparr>reads := reads w + 1\<rparr>)"

definition datetime_now :: "world \<Rightarrow> rat \<times> world" where
  "datetime_now w = (clock w (reads w), w\<lparr>reads := reads w + 1\<rparr>)"

text \<open>
  Python's \<open>round(x, ndigits)\<close> on a float: the decimal with \<open>ndigits\<close> digits after the point
  nearest to the exact value of the double \<open>x\<close>, ties to even (\<open>round_decimal\<close>), converted
  back to a double.
\<close>

definition round_decimal :: "rat \<Rightarrow> nat \<Rightarrow> rat" where
  "round_decimal x ndigits = of_int (round_half_even (x * 10 ^ ndigits)) / 10 ^ ndigits"

definition py_round :: "rat \<Rightarrow> nat \<Rightarrow> rat" where
  "py_round x ndigits = to_double (round_decimal x ndigits)"

text \<open>
  \<open>_init_logger\<close> sets the level of the global logger: DEBUG with the flag, INFO without.
  \<open>insert\<close> calls it before anything logs.
\<close>

definition init_logger :: "bool \<Rightarrow> world \<Rightarrow> world" where
  "init_logger dbg w = w\<lparr>logger_debug := dbg\<rparr>"

definition emit :: "message \<Rightarrow> world \<Rightarrow> world" where
  "emit m w = w\<lparr>console := console w @ [m]\<rparr>"

definition log_debug :: "message \<Rightarrow> world \<Rightarrow> world" where
  "log_debug m w = (if logger_debug w then emit m w else w)"

definition log_info :: "message \<Rightarrow> world \<Rightarrow> world" where
  "log_info m w = emit m w"

definition log_error :: "message \<Rightarrow> world \<Rightarrow> world" where
  "log_error m w = emit m w"

definition secho :: "message \<Rightarrow> world \<Rightarrow> world" where
  "secho m w = emit m w"

text \<open>A string or \<open>None\<close> in a condition: \<open>None\<close> and the empty string are false.\<close>

fun truthy :: "string option \<Rightarrow> bool" where
  "truthy None = False"
| "truthy (Some s) = (s \<noteq> [])"

section \<open>The database server\<close>

text \<open>
  The server is the part of the environment the program cannot see into. It is taken
  here as a server that answers every well-formed statement: dropping a missing table,
  creating an existing one, inserting into a missing one, an INSERT with no tuple after
  VALUES or unbound placeholders, and a COPY from a missing or malformed file are errors;
  nothing else fails.
\<close>

fun parse_line :: "cell list \<Rightarrow> row option" where
  "parse_line [IntCell a, IntCell b, NumCell c, TimeCell d, TextCell e] =
     Some \<lparr>my_integer = a, my_smallint = b, my_decimal = c, my_timestamp = d, my_varchar = e\<rparr>"
| "parse_line _ = None"

definition append_rows :: "string \<Rightarrow> row list \<Rightarrow> (string \<rightharpoonup> table) \<Rightarrow> db_error + (string \<rightharpoonup> table)" where
  "append_rows n rs tb =
     (case tb n of
        None \<Rightarrow> Inl UndefinedTable
      | Some t \<Rightarrow> Inr (tb(n \<mapsto> t\<lparr>contents := contents t @ rs\<rparr>)))"

fun server_exec :: "statement \<Rightarrow> (string \<rightharpoonup> table) \<Rightarrow> (location \<rightharpoonup> csv_file)
    \<Rightarrow> db_error + (string \<rightharpoonup> table)" where
  "server_exec (DropTable n, rs) tb fs =
     (case tb n of None \<Rightarrow> Inl UndefinedTable | Some t \<Rightarrow> Inr (tb(n := None)))"
| "server_exec (CreateTempTable n cols, rs) tb fs =
     (case tb n of
        None \<Rightarrow> Inr (tb(n \<mapsto> \<lparr>schema = cols, contents = []\<rparr>))
      | Some t \<Rightarrow> Inl DuplicateTable)"
| "server_exec (InsertValues n cols, rs) tb fs =
     (if rs = [] then Inl SyntaxError else append_rows n rs tb)"
| "server_exec (InsertParams n cols, rs) tb fs =
     (if length rs = 1 then append_rows n rs tb else Inl SyntaxError)"
| "server_exec (CopyCsv n loc role sep skip, rs) tb fs =
     (case fs loc of
        None \<Rightarrow> Inl LoadError
      | Some f \<Rightarrow>
          if delimiter f \<noteq> sep then Inl LoadError
          else (case those (map parse_line (drop skip (file_lines f))) of
                  None \<Rightarrow> Inl LoadError
                | Some loaded \<Rightarrow> append_rows n loaded tb))"

text \<open>\<open>cur.execute\<close>: the statement reaches the server, which applies it or raises.\<close>

definition cur_execute :: "statement \<Rightarrow> world \<Rightarrow> (exn + unit) \<times> world" where
  "cur_execute st w =
     (let w1 = w\<lparr>executed := executed w @ [st]\<rparr>
      in case server_exec st (tables w1) (storage w1) of
           Inl e \<Rightarrow> (Inl (DatabaseError e), w1)
         | Inr tb \<Rightarrow> (Inr (), w1\<lparr>tables := tb\<rparr>))"

section \<open>The functions of the program\<close>

text \<open>\<open>_get_random_string(length)\<close>: \<open>length\<close> lowercase letters, each a \<open>choice\<close>.\<close>

fun get_random_string :: "nat \<Rightarrow> world \<Rightarrow> string \<times> world" where
  "get_random_string 0 w = ([], w)"
| "get_random_string (Suc n) w =
     (case choice ascii_lowercase w of
        (c, w1) \<Rightarrow> (case get_random_string n w1 of (cs, w2) \<Rightarrow> (c # cs, w2)))"

text \<open>
  \<open>_connect_redshift\<close>: the password is the global one, else the environment variable
  \<open>DB_PASSWORD\<close>, else the reply to the prompt (\<open>prompt_reply\<close>; \<open>None\<close> when the prompt
  fails). \<open>dial\<close> tells which requests the server accepts. Whatever \<open>Exception\<close> the body
  raises is logged and the function returns \<open>None\<close>.
\<close>

definition resolve_password :: "world \<Rightarrow> (exn + string) \<times> world" where
  "resolve_password w =
     (if truthy (password w) then (Inr (the (password w)), w)
      else let w1 = w\<lparr>password := env_password w\<rparr>
           in if truthy (password w1) then (Inr (the (password w1)), w1)
              else (case prompt_reply w1 of
                      None \<Rightarrow> (Inl EOFError, w1)
                    | Some p \<Rightarrow> (Inr p, w1\<lparr>password := Some p\<rparr>)))"

definition psycopg2_connect :: "conn_request \<Rightarrow> world \<Rightarrow> (exn + connection) \<times> world" where
  "psycopg2_connect rq w =
     (if dial w rq then (Inr (Connection rq), w) else (Inl OperationalError, w))"

definition connect_redshift :: "string \<Rightarrow> int \<Rightarrow> string \<Rightarrow> string \<Rightarrow> world
    \<Rightarrow> (exn + connection option) \<times> world" where
  "connect_redshift host port name user w =
     (let w0 = log_debug (Debug_connect user host name) w;
          body =
            (case resolve_password w0 of
               (Inl e, w1) \<Rightarrow> (Inl e, w1)
             | (Inr pw, w1) \<Rightarrow>
                 psycopg2_connect
                   \<lparr>req_dbname = name, req_host = host, req_port = port, req_user = user,
                    req_password = pw, req_sslmode = ''require''\<rparr> w1)
      in case body of
           (Inr c, w2) \<Rightarrow> (Inr (Some c), w2)
         | (Inl e, w2) \<Rightarrow>
             if is_Exception e then (Inr None, log_error (Error_connect e) w2)
             else (Inl e, w2))"

text \<open>
  \<open>_execute\<close>. Setting \<open>conn.autocommit\<close> on \<open>None\<close> raises \<open>AttributeError\<close>. An empty
  tuple is false in \<open>if data:\<close>, as \<open>None\<close> is. The bulk branch sends the tuples in slices
  of \<open>max_nbr_of_tuples\<close>, at offsets \<open>range(0, len(data), max_nbr_of_tuples)\<close>.
\<close>

definition max_nbr_of_tuples :: nat where
  "max_nbr_of_tuples = 50000"

function execute_chunks :: "sql \<Rightarrow> row list \<Rightarrow> nat \<Rightarrow> world \<Rightarrow> (exn + unit) \<times> world" where
  "execute_chunks q data x w =
     (if x < length data then
        (case cur_execute (q, take max_nbr_of_tuples (drop x data)) w of
           (Inl e, w1) \<Rightarrow> (Inl e, w1)
         | (Inr u, w1) \<Rightarrow> execute_chunks q data (x + max_nbr_of_tuples) w1)
      else (Inr (), w))"
  by pat_completeness auto
termination
  by (relation "measure (\<lambda>(q, data, x, w). length data - x)")
     (auto simp: max_nbr_of_tuples_def)

declare execute_chunks.simps [simp del]

fun data_true :: "data_arg \<Rightarrow> bool" where
  "data_true NoData = False"
| "data_true (RowData d) = True"
| "data_true (BulkData ds) = (ds \<noteq> [])"

definition execute :: "connection option \<Rightarrow> sql \<Rightarrow> data_arg \<Rightarrow> bool \<Rightarrow> world
    \<Rightarrow> (exn + rat) \<times> world" where
  "execute conn q data auto_commit w =
     (case conn of
        None \<Rightarrow> (Inl AttributeError, w)
      | Some c \<Rightarrow>
          (case time (w\<lparr>autocommit := auto_commit\<rparr>) of
             (tic, w1) \<Rightarrow>
               (case (if data_true data then
                        (case data of
                           BulkData ds \<Rightarrow> execute_chunks q ds 0 w1
                         | RowData d \<Rightarrow> cur_execute (q, [d]) w1
                         | NoData \<Rightarrow> cur_execute (q, []) w1)
                      else cur_execute (q, []) w1) of
                  (Inl e, w2) \<Rightarrow> (Inl e, w2)
                | (Inr u, w2) \<Rightarrow> (case time w2 of (toc, w3) \<Rightarrow> (Inr (fsub toc tic), w3)))))"

definition staging_schema :: "column list" where
  "staging_schema =
     [(''id'', BigintIdentity 0 1),
      (''my_integer'', Integer),
      (''my_smallint'', Smallint),
      (''my_decimal'', Decimal 8 2),
      (''my_timestamp'', Timestamp),
      (''my_varchar'', Varchar 100)]"

text \<open>\<open>_init_table\<close>: the drop is inside \<open>try ... except Exception\<close>, the create is not.\<close>

definition init_table :: "connection option \<Rightarrow> world \<Rightarrow> (exn + unit) \<times> world" where
  "init_table conn w =
     (case (case execute conn (DropTable table_name) NoData True w of
              (Inr dt, w1) \<Rightarrow> (Inr (fadd 0 dt), w1)
            | (Inl e, w1) \<Rightarrow>
                if is_Exception e then (Inr 0, log_debug (Debug_drop_ignored e) w1)
                else (Inl e, w1)) of
        (Inl e, w1) \<Rightarrow> (Inl e, w1)
      | (Inr t, w1) \<Rightarrow>
          (case execute conn (CreateTempTable table_name staging_schema) NoData True w1 of
             (Inl e, w2) \<Rightarrow> (Inl e, w2)
           | (Inr dt, w2) \<Rightarrow>
               (Inr (), log_info (Info_create_table (py_round (fdiv (fadd t dt) 1000) 4)) w2)))"

text \<open>The row tuple of the three loops; Python evaluates its elements left to right.\<close>

definition gen_row :: "world \<Rightarrow> row \<times> world" where
  "gen_row w =
     (case randint 0 (10 ^ 9) w of
        (a, w1) \<Rightarrow>
     (case randint 0 (10 ^ 3) w1 of
        (b, w2) \<Rightarrow>
     (case py_random w2 of
        (c, w3) \<Rightarrow>
     (case datetime_now w3 of
        (d, w4) \<Rightarrow>
     (case get_random_string 100 w4 of
        (e, w5) \<Rightarrow>
          (\<lparr>my_integer = a, my_smallint = b, my_decimal = c, my_timestamp = d,
            my_varchar = e\<rparr>, w5))))))"

text \<open>\<open>len(range(start, stop))\<close>.\<close>

definition range_len :: "int \<Rightarrow> int \<Rightarrow> nat" where
  "range_len start stop = nat (stop - start)"

text \<open>
  The loop of the bulk and of the copy scenario, \<open>for i in range(0, nbr_of_records)\<close>:
  each round appends one row to \<open>all_data\<close>.
\<close>

fun collect_rows :: "nat \<Rightarrow> row list \<Rightarrow> world \<Rightarrow> row list \<times> world" where
  "collect_rows 0 all_data w = (all_data, w)"
| "collect_rows (Suc k) all_data w =
     (case gen_row w of (d, w1) \<Rightarrow> collect_rows k (all_data @ [d]) w1)"

definition insert_columns :: "string list" where
  "insert_columns = [''my_integer'', ''my_smallint'', ''my_decimal'', ''my_timestamp'', ''my_varchar'']"

definition bulk_scenario :: "connection option \<Rightarrow> int \<Rightarrow> world \<Rightarrow> (exn + unit) \<times> world" where
  "bulk_scenario conn n w =
     (case init_table conn w of
        (Inl e, w1) \<Rightarrow> (Inl e, w1)
      | (Inr u, w1) \<Rightarrow>
          (case time (log_debug (Debug_insert Bulk n) w1) of
             (tic, w2) \<Rightarrow>
          (case collect_rows (range_len 0 n) [] w2 of
             (all_data, w3) \<Rightarrow>
          (case execute conn (InsertValues table_name insert_columns) (BulkData all_data) True w3 of
             (Inl e, w4) \<Rightarrow> (Inl e, w4)
           | (Inr sql_time, w4) \<Rightarrow>
               (case time w4 of
                  (toc, w5) \<Rightarrow>
                    (Inr (), secho (Timing Bulk n (py_round (fsub toc tic) 3) (py_round sql_time 3)) w5))))))"

text \<open>\<open>str.rstrip('/')\<close>.\<close>

definition rstrip_slash :: "string \<Rightarrow> string" where
  "rstrip_slash s = rev (dropWhile (\<lambda>c. c = CHR ''/'') (rev s))"

definition cells_of_row :: "row \<Rightarrow> cell list" where
  "cells_of_row r =
     [IntCell (my_integer r), IntCell (my_smallint r), NumCell (my_decimal r),
      TimeCell (my_timestamp r), TextCell (my_varchar r)]"

text \<open>\<open>DataFrame(all_data, columns=columns).to_csv(output_file, sep=";", index=False)\<close>.\<close>

definition to_csv :: "string list \<Rightarrow> row list \<Rightarrow> location \<Rightarrow> char \<Rightarrow> world \<Rightarrow> world" where
  "to_csv columns all_data output_file sep w =
     w\<lparr>storage := (storage w)(output_file \<mapsto>
         \<lparr>delimiter = sep, file_lines = map TextCell columns # map cells_of_row all_data\<rparr>)\<rparr>"

definition copy_scenario :: "connection option \<Rightarrow> string option \<Rightarrow> string option \<Rightarrow> int
    \<Rightarrow> world \<Rightarrow> (exn + unit) \<times> world" where
  "copy_scenario conn s3_path iam_role n w =
     (if \<not> (truthy iam_role \<and> truthy s3_path) then (Inl (SystemExit 1), secho Params_required w)
      else
        (case init_table conn w of
           (Inl e, w1) \<Rightarrow> (Inl e, w1)
         | (Inr u, w1) \<Rightarrow>
             (case time (log_debug (Debug_insert Copy n) w1) of
                (tic, w2) \<Rightarrow>
             (case collect_rows (range_len 0 n) [] w2 of
                (all_data, w3) \<Rightarrow>
             (case datetime_now w3 of
                (stamp, w4) \<Rightarrow>
                  (let output_file = CsvObject (rstrip_slash (the s3_path)) \<lfloor>stamp\<rfloor>;
                       w5 = to_csv insert_columns all_data output_file CHR '';'' w4
                   in case execute conn (CopyCsv table_name output_file (the iam_role) CHR '';'' 1)
                             NoData True w5 of
                        (Inl e, w6) \<Rightarrow> (Inl e, w6)
                      | (Inr sql_time, w6) \<Rightarrow>
                          (case time w6 of
                             (toc, w7) \<Rightarrow>
                               (Inr (), secho (Timing Copy n (py_round (fsub toc tic) 3)
                                                 (py_round sql_time 3)) w7))))))))"

text \<open>The loop of the classic scenario, \<open>for _ in range(1, nbr_of_records)\<close>.\<close>

fun classic_loop :: "nat \<Rightarrow> connection option \<Rightarrow> rat \<Rightarrow> world \<Rightarrow> (exn + rat) \<times> world" where
  "classic_loop 0 conn sql_time w = (Inr sql_time, w)"
| "classic_loop (Suc k) conn sql_time w =
     (case gen_row w of
        (d, w1) \<Rightarrow>
          (case execute conn (InsertParams table_name insert_columns) (RowData d) True w1 of
             (Inl e, w2) \<Rightarrow> (Inl e, w2)
           | (Inr dt, w2) \<Rightarrow> classic_loop k conn (fadd sql_time dt) w2))"

definition max_records :: int where
  "max_records = 100"

definition classic_scenario :: "connection option \<Rightarrow> int \<Rightarrow> world \<Rightarrow> (exn + unit) \<times> world" where
  "classic_scenario conn n0 w =
     (let w0 = (if n0 > max_records then secho (Clamp_warning max_records) w else w);
          n = (if n0 > max_records then max_records else n0)
      in case init_table conn w0 of
           (Inl e, w1) \<Rightarrow> (Inl e, w1)
         | (Inr u, w1) \<Rightarrow>
             (case time (log_debug Debug_classic w1) of
                (tic, w2) \<Rightarrow>
                  (case classic_loop (range_len 1 n) conn 0 w2 of
                     (Inl e, w3) \<Rightarrow> (Inl e, w3)
                   | (Inr sql_time, w3) \<Rightarrow>
                       (case time w3 of
                          (toc, w4) \<Rightarrow>
                            (Inr (), secho (Timing Classic n (py_round (fsub toc tic) 3)
                                              (py_round sql_time 3)) w4)))))"

text \<open>
  The command \<open>insert\<close>: logger, connection, \<open>seed(1)\<close>, then the three blocks in the order
  of the source, each behind its \<open>if scenario in [...]\<close>. The connection is not tested.
\<close>

definition insert_cmd :: "insert_args \<Rightarrow> world \<Rightarrow> (exn + unit) \<times> world" where
  "insert_cmd a w =
     (case connect_redshift (db_host a) (db_port a) (db_name a) (db_user a)
             (init_logger (debug a) w) of
        (Inl e, w1) \<Rightarrow> (Inl e, w1)
      | (Inr conn, w1) \<Rightarrow>
          (case (if scenario a \<in> {Bulk, All}
                 then bulk_scenario conn (nbr_of_records a) (seed 1 w1)
                 else (Inr (), seed 1 w1)) of
             (Inl e, w2) \<Rightarrow> (Inl e, w2)
           | (Inr u, w2) \<Rightarrow>
               (case (if scenario a \<in> {Copy, All}
                      then copy_scenario conn (copy_s3_path a) (copy_iam_role a)
                             (nbr_of_records a) w2
                      else (Inr (), w2)) of
                  (Inl e, w3) \<Rightarrow> (Inl e, w3)
                | (Inr u, w3) \<Rightarrow>
                    (if scenario a \<in> {Classic, All}
                     then classic_scenario conn (nbr_of_records a) w3
                     else (Inr (), w3)))))"

section \<open>Notions used in the statements\<close>

text \<open>
  \<open>slices m xs\<close> cuts \<open>xs\<close> into consecutive pieces of \<open>m\<close> elements, the last one
  possibly shorter: the slices \<open>data[x:x+m]\<close> for \<open>x\<close> in \<open>range(0, len(data), m)\<close>.
\<close>

function slices :: "nat \<Rightarrow> 'a list \<Rightarrow> 'a list list" where
  "slices m xs = (if m = 0 \<or> xs = [] then [] else take m xs # slices m (drop m xs))"
  by pat_completeness auto
termination
  by (relation "measure (\<lambda>(m, xs). length xs)") auto

declare slices.simps [simp del]

text \<open>\<open>tick w i\<close> is what \<open>time()\<close> returns at the \<open>i\<close>-th reading of the clock.\<close>

abbreviation tick :: "world \<Rightarrow> nat \<Rightarrow> rat" where
  "tick w i \<equiv> to_double (clock w i)"

text \<open>
  One \<open>_init_table\<close> on a live connection: the number of its clock readings (the DROP that
  raises reads the clock once, before the statement), the sum \<open>t\<close> of its statement times,
  the lines it logs, the statements it sends and the table it leaves.
\<close>

definition init_reads :: "world \<Rightarrow> nat" where
  "init_reads w = (if tables w table_name = None then 3 else 4)"

definition init_time :: "world \<Rightarrow> rat" where
  "init_time w =
     (if tables w table_name = None
      then fadd 0 (fsub (tick w (reads w + 2)) (tick w (reads w + 1)))
      else fadd (fadd 0 (fsub (tick w (reads w + 1)) (tick w (reads w))))
             (fsub (tick w (reads w + 3)) (tick w (reads w + 2))))"

definition init_lines :: "world \<Rightarrow> message list" where
  "init_lines w =
     (if tables w table_name = None \<and> logger_debug w
      then [Debug_drop_ignored (DatabaseError UndefinedTable)] else [])
     @ [Info_create_table (py_round (fdiv (init_time w) 1000) 4)]"

definition init_statements :: "statement list" where
  "init_statements =
     [(DropTable table_name, []), (CreateTempTable table_name staging_schema, [])]"

definition empty_staging :: table where
  "empty_staging = \<lparr>schema = staging_schema, contents = []\<rparr>"

text \<open>
  The first three statements of \<open>insert\<close>: \<open>handle\<close> is what \<open>_connect_redshift\<close> returns
  there, \<open>session\<close> the environment after \<open>seed(1)\<close>, in which the scenarios start.
  \<open>connect_fails\<close> says that the body of \<open>_connect_redshift\<close> raises.
\<close>

definition handle :: "insert_args \<Rightarrow> world \<Rightarrow> exn + connection option" where
  "handle a w =
     fst (connect_redshift (db_host a) (db_port a) (db_name a) (db_user a)
            (init_logger (debug a) w))"

definition session :: "insert_args \<Rightarrow> world \<Rightarrow> world" where
  "session a w =
     seed 1 (snd (connect_redshift (db_host a) (db_port a) (db_name a) (db_user a)
                    (init_logger (debug a) w)))"

definition connect_fails :: "string \<Rightarrow> int \<Rightarrow> string \<Rightarrow> string \<Rightarrow> world \<Rightarrow> bool" where
  "connect_fails host port name user w =
     (case resolve_password (log_debug (Debug_connect user host name) w) of
        (Inl e, w1) \<Rightarrow> True
      | (Inr pw, w1) \<Rightarrow>
          \<not> dial w1 \<lparr>req_dbname = name, req_host = host, req_port = port, req_user = user,
                       req_password = pw, req_sslmode = ''require''\<rparr>)"

text \<open>
  Reading a trace: which statements are INSERTs and which CREATEs, how many rows the
  staging table holds, which lines are report lines of a scenario, and the scenarios of
  the report lines in the order they were printed.
\<close>

fun is_insert :: "statement \<Rightarrow> bool" where
  "is_insert (InsertValues n cols, rs) = True"
| "is_insert (InsertParams n cols, rs) = True"
| "is_insert _ = False"

fun is_create :: "statement \<Rightarrow> bool" where
  "is_create (CreateTempTable n cols, rs) = True"
| "is_create _ = False"

definition staging_rows :: "world \<Rightarrow> nat option" where
  "staging_rows w =
     (case tables w table_name of None \<Rightarrow> None | Some t \<Rightarrow> Some (length (contents t)))"

fun is_timing :: "message \<Rightarrow> bool" where
  "is_timing (Timing s k t1 t2) = True"
| "is_timing _ = False"

fun timed :: "message list \<Rightarrow> scenario list" where
  "timed [] = []"
| "timed (Timing s k t1 t2 # ms) = s # timed ms"
| "timed (m # ms) = timed ms"

section \<open>Example environments\<close>

text \<open>
  Concrete environments on which the definitions are evaluated: \<open>demo_world\<close> is a server
  with no staging table that accepts every request, with the password in the environment
  variable; \<open>demo_args\<close> gives both copy parameters, \<open>bare_args\<close> neither.
\<close>

definition demo_prng :: "nat \<Rightarrow> nat \<Rightarrow> nat" where
  "demo_prng s i = 7 * i + s"

definition top_prng :: "nat \<Rightarrow> nat \<Rightarrow> nat" where
  "top_prng s i = 1000000000"

definition demo_clock :: "nat \<Rightarrow> rat" where
  "demo_clock i = of_nat (i * i) / 8"

definition accept_all :: "conn_request \<Rightarrow> bool" where
  "accept_all rq = True"

definition refuse_all :: "conn_request \<Rightarrow> bool" where
  "refuse_all rq = False"

definition demo_world :: world where
  "demo_world =
     \<lparr>prng = demo_prng, entropy = demo_prng 0, drawn = 0, clock = demo_clock, reads = 0,
      tables = Map.empty, storage = Map.empty, executed = [], console = [],
      autocommit = False, logger_debug = False, password = None,
      env_password = Some ''secret'', prompt_reply = None, dial = accept_all\<rparr>"

definition demo_args :: "scenario \<Rightarrow> int \<Rightarrow> insert_args" where
  "demo_args s n =
     \<lparr>db_host = ''host'', db_port = 5439, db_name = ''db'', db_user = ''user'',
      copy_s3_path = Some ''s3://bucket/stage/'', copy_iam_role = Some ''arn:role'',
      nbr_of_records = n, scenario = s, debug = False\<rparr>"

definition demo_conn :: connection where
  "demo_conn =
     Connection \<lparr>req_dbname = ''db'', req_host = ''host'', req_port = 5439, req_user = ''user'',
       req_password = ''secret'', req_sslmode = ''require''\<rparr>"

text \<open>An environment whose generator always yields \<open>10^9\<close>.\<close>

definition top_world :: world where
  "top_world = demo_world\<lparr>entropy := top_prng 1\<rparr>"

text \<open>
  A server that refuses every connection; a clock that advances a quarter of a second
  from one reading to the next, and the same with the staging table present.
\<close>

definition offline_world :: world where
  "offline_world = demo_world\<lparr>dial := refuse_all\<rparr>"

definition quarter_clock :: "nat \<Rightarrow> rat" where
  "quarter_clock i = of_nat i / 4"

definition quarter_world :: world where
  "quarter_world = demo_world\<lparr>clock := quarter_clock\<rparr>"

definition used_world :: world where
  "used_world = quarter_world\<lparr>tables := [table_name \<mapsto> empty_staging]\<rparr>"

definition bare_args :: "scenario \<Rightarrow> int \<Rightarrow> insert_args" where
  "bare_args s n = (demo_args s n)\<lparr>copy_s3_path := None, copy_iam_role := None\<rparr>"

section \<open>The environment and the row generator\<close>

lemma randbelow_eq: "randbelow n w = (entropy w (drawn w) mod n, w\<lparr>drawn := drawn w + 1\<rparr>)"
  by (simp add: randbelow_def draw_def)

lemma randint_eq:
  "randint a b w = (a + int (entropy w (drawn w) mod nat (b - a + 1)), w\<lparr>drawn := drawn w + 1\<rparr>)"
  by (simp add: randint_def randbelow_eq)

lemma py_random_eq:
  "py_random w = (of_nat (entropy w (drawn w) mod 2 ^ 53) / 2 ^ 53, w\<lparr>drawn := drawn w + 1\<rparr>)"
  by (simp add: py_random_def randbelow_eq)

lemma choice_eq:
  "choice xs w = (xs ! (entropy w (drawn w) mod length xs), w\<lparr>drawn := drawn w + 1\<rparr>)"
  by (simp add: choice_def randbelow_eq)

lemma get_random_string_world: "snd (get_random_string n w) = w\<lparr>drawn := drawn w + n\<rparr>"
  by (induction n arbitrary: w) (simp_all add: choice_eq case_prod_beta)

lemma get_random_string_length: "length (fst (get_random_string n w)) = n"
  by (induction n arbitrary: w) (simp_all add: choice_eq case_prod_beta)

lemma length_ascii_lowercase: "length ascii_lowercase = 26"
  by (simp add: ascii_lowercase_def)

lemma choice_lowercase: "fst (choice ascii_lowercase w) \<in> set ascii_lowercase"
proof -
  have "entropy w (drawn w) mod length ascii_lowercase < length ascii_lowercase"
    by (simp add: length_ascii_lowercase)
  then show ?thesis
    by (simp only: choice_eq fst_conv nth_mem)
qed

lemma get_random_string_lowercase: "set (fst (get_random_string n w)) \<subseteq> set ascii_lowercase"
proof (induction n arbitrary: w)
  case 0
  show ?case by simp
next
  case (Suc n)
  obtain c w1 where c: "choice ascii_lowercase w = (c, w1)" by (cases "choice ascii_lowercase w")
  obtain cs w2 where cs: "get_random_string n w1 = (cs, w2)" by (cases "get_random_string n w1")
  have "c \<in> set ascii_lowercase" using choice_lowercase [of w] c by simp
  moreover have "set cs \<subseteq> set ascii_lowercase" using Suc.IH [of w1] cs by simp
  ultimately show ?case using c cs by simp
qed

lemma gen_row_world: "snd (gen_row w) = w\<lparr>drawn := drawn w + 103, reads := reads w + 1\<rparr>"
  by (simp add: gen_row_def randint_eq py_random_eq datetime_now_def case_prod_beta
      get_random_string_world)

lemma gen_row_fields:
  "my_integer (fst (gen_row w)) = int (entropy w (drawn w) mod 1000000001)"
  "my_smallint (fst (gen_row w)) = int (entropy w (drawn w + 1) mod 1001)"
  "my_decimal (fst (gen_row w)) = of_nat (entropy w (drawn w + 2) mod 2 ^ 53) / 2 ^ 53"
  "my_timestamp (fst (gen_row w)) = clock w (reads w)"
  "length (my_varchar (fst (gen_row w))) = 100"
  "set (my_varchar (fst (gen_row w))) \<subseteq> set ascii_lowercase"
  by (simp_all add: gen_row_def randint_eq py_random_eq datetime_now_def case_prod_beta
      get_random_string_length get_random_string_lowercase)

lemma collect_rows_world:
  "snd (collect_rows k acc w) = w\<lparr>drawn := drawn w + 103 * k, reads := reads w + k\<rparr>"
proof (induction k arbitrary: acc w)
  case 0
  show ?case by simp
next
  case (Suc k)
  obtain d w1 where d: "gen_row w = (d, w1)" by (cases "gen_row w")
  have w1: "w1 = w\<lparr>drawn := drawn w + 103, reads := reads w + 1\<rparr>"
    using gen_row_world [of w] d by simp
  show ?case using d Suc.IH [of "acc @ [d]" w1] by (simp add: w1)
qed

lemma collect_rows_length: "length (fst (collect_rows k acc w)) = length acc + k"
proof (induction k arbitrary: acc w)
  case 0
  show ?case by simp
next
  case (Suc k)
  obtain d w1 where d: "gen_row w = (d, w1)" by (cases "gen_row w")
  show ?case using d Suc.IH [of "acc @ [d]" w1] by simp
qed

lemma floor_small_fraction: "\<lfloor>(48828125::rat) / 4398046511104\<rfloor> = 0"
  by (simp add: floor_eq_iff)

lemma to_double_zero: "to_double 0 = 0"
  by (simp add: to_double_def)

text \<open>
  C5 (as the code has it). Every row of the generator has its integer field in the closed
  range from 0 to \<open>10^9\<close> and its small-integer field in the closed range from 0 to
  \<open>10^3\<close>: \<open>randint\<close> includes both ends. The decimal field is the unrounded value of
  \<open>random()\<close>, a multiple of \<open>2^-53\<close> that is at least 0 and below 1. The string field
  has 100 characters, all of them lowercase letters.
\<close>

theorem row_ranges:
  "0 \<le> my_integer (fst (gen_row w)) \<and> my_integer (fst (gen_row w)) \<le> 10 ^ 9 \<and>
   0 \<le> my_smallint (fst (gen_row w)) \<and> my_smallint (fst (gen_row w)) \<le> 10 ^ 3 \<and>
   0 \<le> my_decimal (fst (gen_row w)) \<and> my_decimal (fst (gen_row w)) < 1 \<and>
   (\<exists>k. my_decimal (fst (gen_row w)) = of_nat k / 2 ^ 53) \<and>
   length (my_varchar (fst (gen_row w))) = 100 \<and>
   set (my_varchar (fst (gen_row w))) \<subseteq> set ascii_lowercase"
proof -
  have a: "entropy w (drawn w) mod 1000000001 < 1000000001" by simp
  have b: "entropy w (drawn w + 1) mod 1001 < 1001" by simp
  have c: "entropy w (drawn w + 2) mod 2 ^ 53 < 2 ^ 53" by simp
  have i: "my_integer (fst (gen_row w)) \<le> 10 ^ 9"
    using a by (simp only: gen_row_fields) simp
  have s: "my_smallint (fst (gen_row w)) \<le> 10 ^ 3"
    using b by (simp only: gen_row_fields) simp
  have "(of_nat (entropy w (drawn w + 2) mod 2 ^ 53) :: rat) < of_nat (2 ^ 53)"
    using c by (simp only: of_nat_less_iff)
  then have d: "my_decimal (fst (gen_row w)) < 1"
    by (simp add: gen_row_fields)
  have e: "\<exists>k. my_decimal (fst (gen_row w)) = of_nat k / 2 ^ 53"
    by (simp only: gen_row_fields) blast
  show ?thesis
    using i s d e by (simp add: gen_row_fields)
qed

text \<open>
  C5 as stated fails: with a generator that yields \<open>10^9\<close> the integer field is \<open>10^9\<close>,
  outside the half-open range, and the decimal field is not a value of scale 2.
\<close>

theorem row_integer_upper_end:
  "\<not> my_integer (fst (gen_row top_world)) < 10 ^ 9 \<and>
   py_round (my_decimal (fst (gen_row top_world))) 2 \<noteq> my_decimal (fst (gen_row top_world))"
  by (simp add: gen_row_fields top_world_def demo_world_def top_prng_def py_round_def
      round_decimal_def round_half_even_def Let_def floor_small_fraction to_double_zero)

section \<open>Statements and table initialisation\<close>

lemma execute_None: "execute None q d ac w = (Inl AttributeError, w)"
  by (simp add: execute_def)

lemma execute_NoData:
  "execute (Some c) q NoData ac w =
     (case server_exec (q, []) (tables w) (storage w) of
        Inl e \<Rightarrow>
          (Inl (DatabaseError e),
           w\<lparr>autocommit := ac, reads := reads w + 1, executed := executed w @ [(q, [])]\<rparr>)
      | Inr tb \<Rightarrow>
          (Inr (fsub (tick w (reads w + 1)) (tick w (reads w))),
           w\<lparr>autocommit := ac, reads := reads w + 2, executed := executed w @ [(q, [])],
             tables := tb\<rparr>))"
  by (simp add: execute_def time_def cur_execute_def split: sum.splits)

lemma execute_RowData:
  assumes "tables w n = Some t"
  shows "execute (Some c) (InsertParams n cols) (RowData d) ac w =
     (Inr (fsub (tick w (reads w + 1)) (tick w (reads w))),
      w\<lparr>autocommit := ac, reads := reads w + 2,
        executed := executed w @ [(InsertParams n cols, [d])],
        tables := (tables w)(n \<mapsto> t\<lparr>contents := contents t @ [d]\<rparr>)\<rparr>)"
  using assms by (simp add: execute_def time_def cur_execute_def append_rows_def)

lemma execute_chunks_rows:
  assumes "tables w n = Some t"
  shows "execute_chunks (InsertValues n cols) data x w =
     (Inr (),
      w\<lparr>executed := executed w @ map (Pair (InsertValues n cols)) (slices max_nbr_of_tuples (drop x data)),
        tables := (tables w)(n \<mapsto> t\<lparr>contents := contents t @ drop x data\<rparr>)\<rparr>)"
  using assms
proof (induction "InsertValues n cols" data x w arbitrary: t rule: execute_chunks.induct)
  case (1 data x w)
  show ?case
  proof (cases "x < length data")
    case False
    then show ?thesis
      using "1.prems"
      by (subst execute_chunks.simps) (simp add: slices.simps [of _ "[]"] map_upd_triv)
  next
    case True
    let ?q = "InsertValues n cols"
    let ?s = "take max_nbr_of_tuples (drop x data)"
    let ?w1 = "w\<lparr>executed := executed w @ [(?q, ?s)],
                 tables := (tables w)(n \<mapsto> t\<lparr>contents := contents t @ ?s\<rparr>)\<rparr>"
    have ne: "drop x data \<noteq> []" using True by simp
    have sne: "?s \<noteq> []" using ne by (simp add: max_nbr_of_tuples_def)
    have ce: "cur_execute (?q, ?s) w = (Inr (), ?w1)"
      using "1.prems" sne by (simp add: cur_execute_def append_rows_def)
    have tb: "tables ?w1 n = Some (t\<lparr>contents := contents t @ ?s\<rparr>)" by simp
    have ih: "execute_chunks ?q data (x + max_nbr_of_tuples) ?w1 =
      (Inr (),
       ?w1\<lparr>executed := executed ?w1 @ map (Pair ?q) (slices max_nbr_of_tuples (drop (x + max_nbr_of_tuples) data)),
         tables := (tables ?w1)(n \<mapsto> (t\<lparr>contents := contents t @ ?s\<rparr>)\<lparr>contents := contents (t\<lparr>contents := contents t @ ?s\<rparr>) @ drop (x + max_nbr_of_tuples) data\<rparr>)\<rparr>)"
      using "1.hyps" [OF True ce [symmetric] refl tb] .
    have sl: "slices max_nbr_of_tuples (drop x data) =
        ?s # slices max_nbr_of_tuples (drop (x + max_nbr_of_tuples) data)"
      using ne by (subst slices.simps) (simp add: max_nbr_of_tuples_def add.commute)
    have td: "?s @ drop (x + max_nbr_of_tuples) data = drop x data"
      using append_take_drop_id [of max_nbr_of_tuples "drop x data"] by (simp add: add.commute)
    show ?thesis
      by (subst execute_chunks.simps) (simp add: True ce ih sl td)
  qed
qed

lemma execute_BulkData:
  assumes "tables w n = Some t" and "rows \<noteq> []"
  shows "execute (Some c) (InsertValues n cols) (BulkData rows) ac w =
     (Inr (fsub (tick w (reads w + 1)) (tick w (reads w))),
      w\<lparr>autocommit := ac, reads := reads w + 2,
        executed := executed w @ map (Pair (InsertValues n cols)) (slices max_nbr_of_tuples rows),
        tables := (tables w)(n \<mapsto> t\<lparr>contents := contents t @ rows\<rparr>)\<rparr>)"
proof -
  let ?w1 = "w\<lparr>autocommit := ac, reads := reads w + 1\<rparr>"
  have "tables ?w1 n = Some t" using assms(1) by simp
  from execute_chunks_rows [OF this, of cols rows 0]
  show ?thesis using assms(2) by (simp add: execute_def time_def)
qed

lemma execute_BulkData_empty:
  "execute (Some c) (InsertValues n cols) (BulkData []) ac w =
     (Inl (DatabaseError SyntaxError),
      w\<lparr>autocommit := ac, reads := reads w + 1,
        executed := executed w @ [(InsertValues n cols, [])]\<rparr>)"
  by (simp add: execute_def time_def cur_execute_def)

lemma init_table_live:
  "init_table (Some c) w =
     (Inr (),
      w\<lparr>autocommit := True, reads := reads w + init_reads w,
        executed := executed w @ init_statements,
        tables := (tables w)(table_name \<mapsto> empty_staging),
        console := console w @ init_lines w\<rparr>)"
  by (cases "tables w table_name")
     (auto simp: init_table_def execute_NoData init_reads_def init_time_def init_lines_def
        init_statements_def empty_staging_def log_debug_def log_info_def emit_def
        eval_nat_numeral intro!: world.equality)

lemma init_table_None:
  "init_table None w = (Inl AttributeError, log_debug (Debug_drop_ignored AttributeError) w)"
  by (simp add: init_table_def execute_None)

section \<open>The three scenarios on a live connection\<close>

lemma numeral_4_eq_4: "(4::nat) = Suc (Suc (Suc (Suc 0)))"
  by simp

lemmas small_numerals = numeral_2_eq_2 numeral_3_eq_3 numeral_4_eq_4

lemma bulk_scenario_live:
  assumes "1 \<le> n"
  shows "\<exists>rows. length rows = nat n \<and>
     bulk_scenario (Some c) n w =
       (Inr (),
        w\<lparr>autocommit := True,
          drawn := drawn w + 103 * nat n,
          reads := reads w + init_reads w + nat n + 4,
          executed := executed w @ init_statements
            @ map (Pair (InsertValues table_name insert_columns)) (slices max_nbr_of_tuples rows),
          tables := (tables w)(table_name \<mapsto> \<lparr>schema = staging_schema, contents = rows\<rparr>),
          console := console w @ init_lines w
            @ (if logger_debug w then [Debug_insert Bulk n] else [])
            @ [Timing Bulk n
                 (py_round (fsub (tick w (reads w + init_reads w + nat n + 3)) (tick w (reads w + init_reads w))) 3)
                 (py_round (fsub (tick w (reads w + init_reads w + nat n + 2)) (tick w (reads w + init_reads w + nat n + 1))) 3)]\<rparr>)"
proof -
  define wi where "wi = snd (init_table (Some c) w)"
  have init: "init_table (Some c) w = (Inr (), wi)"
    by (simp add: wi_def init_table_live)
  have wi: "wi = w\<lparr>autocommit := True, reads := reads w + init_reads w,
        executed := executed w @ init_statements,
        tables := (tables w)(table_name \<mapsto> empty_staging),
        console := console w @ init_lines w\<rparr>"
    by (simp add: wi_def init_table_live)
  define w2 where "w2 = snd (time (log_debug (Debug_insert Bulk n) wi))"
  have tic: "time (log_debug (Debug_insert Bulk n) wi) = (tick w (reads w + init_reads w), w2)"
    by (simp add: w2_def time_def log_debug_def emit_def wi)
  obtain rows w3 where cr: "collect_rows (range_len 0 n) [] w2 = (rows, w3)"
    by (cases "collect_rows (range_len 0 n) [] w2")
  have len: "length rows = nat n"
    using collect_rows_length [of "range_len 0 n" "[]" w2] cr by (simp add: range_len_def)
  have w3: "w3 = w2\<lparr>drawn := drawn w2 + 103 * nat n, reads := reads w2 + nat n\<rparr>"
    using collect_rows_world [of "range_len 0 n" "[]" w2] cr by (simp add: range_len_def)
  have ne: "rows \<noteq> []" using len assms by auto
  have tb: "tables w3 table_name = Some empty_staging"
    by (simp add: w3 w2_def time_def log_debug_def emit_def wi)
  note ex = execute_BulkData [OF tb ne, of c insert_columns True]
  have "bulk_scenario (Some c) n w =
       (Inr (),
        w\<lparr>autocommit := True,
          drawn := drawn w + 103 * nat n,
          reads := reads w + init_reads w + nat n + 4,
          executed := executed w @ init_statements
            @ map (Pair (InsertValues table_name insert_columns)) (slices max_nbr_of_tuples rows),
          tables := (tables w)(table_name \<mapsto> \<lparr>schema = staging_schema, contents = rows\<rparr>),
          console := console w @ init_lines w
            @ (if logger_debug w then [Debug_insert Bulk n] else [])
            @ [Timing Bulk n
                 (py_round (fsub (tick w (reads w + init_reads w + nat n + 3)) (tick w (reads w + init_reads w))) 3)
                 (py_round (fsub (tick w (reads w + init_reads w + nat n + 2)) (tick w (reads w + init_reads w + nat n + 1))) 3)]\<rparr>)"
    apply (simp only: bulk_scenario_def init tic cr ex prod.case sum.case)
    apply (auto simp: w3 w2_def wi time_def log_debug_def emit_def secho_def empty_staging_def
        small_numerals intro!: world.equality)
    done
  with len show ?thesis by blast
qed

lemma parse_cells_of_row: "parse_line (cells_of_row r) = Some r"
  by (simp add: cells_of_row_def)

lemma those_parse_rows: "those (map parse_line (map cells_of_row rows)) = Some rows"
  by (induction rows) (simp_all add: parse_cells_of_row)

lemma foldl_upt_Suc_shift:
  "foldl g s [0..<Suc k] = foldl (\<lambda>a i. g a (Suc i)) (g s 0) [0..<k]"
proof -
  have "[0..<Suc k] = 0 # map Suc [0..<k]"
    by (simp only: upt_conv_Cons [OF zero_less_Suc] map_Suc_upt)
  then show ?thesis
    by (simp only: foldl_Cons foldl_map)
qed

lemma classic_loop_live:
  assumes "tables w table_name = Some t" and "autocommit w"
  shows "\<exists>rows. length rows = k \<and>
     classic_loop k (Some c) s w =
       (Inr (foldl (\<lambda>acc i. fadd acc (fsub (tick w (reads w + 3 * i + 2))
                                            (tick w (reads w + 3 * i + 1)))) s [0..<k]),
        w\<lparr>drawn := drawn w + 103 * k,
          reads := reads w + 3 * k,
          executed := executed w
            @ map (\<lambda>r. (InsertParams table_name insert_columns, [r])) rows,
          tables := (tables w)(table_name \<mapsto> t\<lparr>contents := contents t @ rows\<rparr>)\<rparr>)"
  using assms
proof (induction k arbitrary: s w t)
  case 0
  have "(tables w)(table_name \<mapsto> t\<lparr>contents := contents t @ []\<rparr>) = tables w"
    using "0.prems"(1) by (simp add: map_upd_triv)
  then show ?case
    by (intro exI [of _ "[]"]) simp
next
  case (Suc k)
  let ?q = "InsertParams table_name insert_columns"
  obtain d w1 where d: "gen_row w = (d, w1)" by (cases "gen_row w")
  have w1: "w1 = w\<lparr>drawn := drawn w + 103, reads := reads w + 1\<rparr>"
    using gen_row_world [of w] d by simp
  have tb1: "tables w1 table_name = Some t" using Suc.prems by (simp add: w1)
  define dt where "dt = fsub (tick w (reads w + 2)) (tick w (reads w + 1))"
  define w2 where "w2 = w1\<lparr>autocommit := True, reads := reads w1 + 2,
        executed := executed w1 @ [(?q, [d])],
        tables := (tables w1)(table_name \<mapsto> t\<lparr>contents := contents t @ [d]\<rparr>)\<rparr>"
  have ex: "execute (Some c) ?q (RowData d) True w1 = (Inr dt, w2)"
    using execute_RowData [OF tb1, of c insert_columns d True]
    by (simp add: w2_def dt_def w1 small_numerals)
  have tb2: "tables w2 table_name = Some (t\<lparr>contents := contents t @ [d]\<rparr>)"
    by (simp add: w2_def)
  have ac2: "autocommit w2" by (simp add: w2_def)
  define g where "g = (\<lambda>acc i. fadd acc (fsub (tick w (reads w + 3 * i + 2))
                                          (tick w (reads w + 3 * i + 1))))"
  define g2 where "g2 = (\<lambda>acc i. fadd acc (fsub (tick w2 (reads w2 + 3 * i + 2))
                                           (tick w2 (reads w2 + 3 * i + 1))))"
  from Suc.IH [OF tb2 ac2, of "fadd s dt"]
  obtain rows where len: "length rows = k"
    and loop: "classic_loop k (Some c) (fadd s dt) w2 =
       (Inr (foldl g2 (fadd s dt) [0..<k]),
        w2\<lparr>drawn := drawn w2 + 103 * k,
          reads := reads w2 + 3 * k,
          executed := executed w2 @ map (\<lambda>r. (?q, [r])) rows,
          tables := (tables w2)(table_name \<mapsto>
             (t\<lparr>contents := contents t @ [d]\<rparr>)\<lparr>contents := contents (t\<lparr>contents := contents t @ [d]\<rparr>) @ rows\<rparr>)\<rparr>)"
    unfolding g2_def by blast
  have sum: "foldl g s [0..<Suc k] = foldl g2 (fadd s dt) [0..<k]"
  proof -
    have g0: "g s 0 = fadd s dt" by (simp add: g_def dt_def)
    have r2: "reads w2 = reads w + 3" by (simp add: w2_def w1)
    have c2: "clock w2 = clock w" by (simp add: w2_def w1)
    have gS: "g acc (Suc i) = g2 acc i" for acc i
    proof -
      have "reads w2 + 3 * i + 2 = reads w + 3 * Suc i + 2" using r2 by simp
      moreover have "reads w2 + 3 * i + 1 = reads w + 3 * Suc i + 1" using r2 by simp
      ultimately show ?thesis by (simp only: g_def g2_def c2)
    qed
    have "foldl g s [0..<Suc k] = foldl (\<lambda>a i. g a (Suc i)) (g s 0) [0..<k]"
      by (rule foldl_upt_Suc_shift)
    then show ?thesis by (simp only: g0 gS)
  qed
  have "classic_loop (Suc k) (Some c) s w =
       (Inr (foldl g s [0..<Suc k]),
        w\<lparr>drawn := drawn w + 103 * Suc k,
          reads := reads w + 3 * Suc k,
          executed := executed w @ map (\<lambda>r. (?q, [r])) (d # rows),
          tables := (tables w)(table_name \<mapsto> t\<lparr>contents := contents t @ d # rows\<rparr>)\<rparr>)"
    apply (simp only: classic_loop.simps d ex loop prod.case sum.case sum)
    using Suc.prems(2)
    apply (auto simp: w2_def w1 intro!: world.equality)
    done
  moreover have "length (d # rows) = Suc k" using len by simp
  ultimately show ?case unfolding g_def by blast
qed

lemma init_console_indep [simp]:
  "init_reads (w\<lparr>console := x\<rparr>) = init_reads w"
  "init_time (w\<lparr>console := x\<rparr>) = init_time w"
  "init_lines (w\<lparr>console := x\<rparr>) = init_lines w"
  by (simp_all add: init_reads_def init_time_def init_lines_def)

lemma classic_scenario_live:
  "\<exists>rows. length rows = nat (min n 100 - 1) \<and>
     classic_scenario (Some c) n w =
       (Inr (),
        w\<lparr>autocommit := True,
          drawn := drawn w + 103 * nat (min n 100 - 1),
          reads := reads w + init_reads w + 3 * nat (min n 100 - 1) + 2,
          executed := executed w @ init_statements
            @ map (\<lambda>r. (InsertParams table_name insert_columns, [r])) rows,
          tables := (tables w)(table_name \<mapsto> \<lparr>schema = staging_schema, contents = rows\<rparr>),
          console := console w
            @ (if n > 100 then [Clamp_warning 100] else [])
            @ init_lines w
            @ (if logger_debug w then [Debug_classic] else [])
            @ [Timing Classic (min n 100)
                 (py_round (fsub (tick w (reads w + init_reads w + 3 * nat (min n 100 - 1) + 1))
                                 (tick w (reads w + init_reads w))) 3)
                 (py_round (foldl (\<lambda>acc i. fadd acc
                                (fsub (tick w (reads w + init_reads w + 1 + 3 * i + 2))
                                      (tick w (reads w + init_reads w + 1 + 3 * i + 1))))
                              0 [0..<nat (min n 100 - 1)]) 3)]\<rparr>)"
proof -
  define k where "k = nat (min n 100 - 1)"
  define m where "m = (if n > max_records then max_records else n)"
  have m: "m = min n 100" by (simp add: m_def max_records_def min_def)
  define w0 where "w0 = (if n > max_records then secho (Clamp_warning max_records) w else w)"
  have w0: "w0 = w\<lparr>console := console w @ (if n > 100 then [Clamp_warning 100] else [])\<rparr>"
    by (simp add: w0_def secho_def emit_def max_records_def)
  define wi where "wi = snd (init_table (Some c) w0)"
  have init: "init_table (Some c) w0 = (Inr (), wi)"
    by (simp add: wi_def init_table_live)
  have wi: "wi = w\<lparr>autocommit := True, reads := reads w + init_reads w,
        executed := executed w @ init_statements,
        tables := (tables w)(table_name \<mapsto> empty_staging),
        console := console w @ (if n > 100 then [Clamp_warning 100] else []) @ init_lines w\<rparr>"
    by (simp add: wi_def init_table_live w0)
  define w2 where "w2 = snd (time (log_debug Debug_classic wi))"
  have tic: "time (log_debug Debug_classic wi) = (tick w (reads w + init_reads w), w2)"
    by (simp add: w2_def time_def log_debug_def emit_def wi)
  have tb: "tables w2 table_name = Some empty_staging"
    by (simp add: w2_def time_def log_debug_def emit_def wi)
  have ac: "autocommit w2"
    by (simp add: w2_def time_def log_debug_def emit_def wi)
  have r2: "reads w2 = reads w + init_reads w + 1"
    by (simp add: w2_def time_def log_debug_def emit_def wi)
  have c2: "clock w2 = clock w"
    by (simp add: w2_def time_def log_debug_def emit_def wi)
  define total where "total = foldl (\<lambda>acc i. fadd acc
                                (fsub (tick w (reads w + init_reads w + 1 + 3 * i + 2))
                                      (tick w (reads w + init_reads w + 1 + 3 * i + 1))))
                              0 [0..<k]"
  from classic_loop_live [OF tb ac, of k c 0]
  obtain rows where len: "length rows = k"
    and loop: "classic_loop k (Some c) 0 w2 =
       (Inr total,
        w2\<lparr>drawn := drawn w2 + 103 * k,
          reads := reads w2 + 3 * k,
          executed := executed w2
            @ map (\<lambda>r. (InsertParams table_name insert_columns, [r])) rows,
          tables := (tables w2)(table_name \<mapsto>
             empty_staging\<lparr>contents := contents empty_staging @ rows\<rparr>)\<rparr>)"
    unfolding total_def r2 c2 by blast
  have rl: "range_len 1 m = k"
    by (simp add: range_len_def k_def m)
  have "classic_scenario (Some c) n w =
       (Inr (),
        w\<lparr>autocommit := True,
          drawn := drawn w + 103 * k,
          reads := reads w + init_reads w + 3 * k + 2,
          executed := executed w @ init_statements
            @ map (\<lambda>r. (InsertParams table_name insert_columns, [r])) rows,
          tables := (tables w)(table_name \<mapsto> \<lparr>schema = staging_schema, contents = rows\<rparr>),
          console := console w
            @ (if n > 100 then [Clamp_warning 100] else [])
            @ init_lines w
            @ (if logger_debug w then [Debug_classic] else [])
            @ [Timing Classic (min n 100)
                 (py_round (fsub (tick w (reads w + init_reads w + 3 * k + 1))
                                 (tick w (reads w + init_reads w))) 3)
                 (py_round total 3)]\<rparr>)"
    apply (simp only: classic_scenario_def Let_def w0_def [symmetric] m_def [symmetric]
        init tic rl loop prod.case sum.case)
    apply (auto simp: m w2_def wi time_def log_debug_def emit_def secho_def empty_staging_def
        small_numerals intro!: world.equality)
    done
  with len show ?thesis unfolding k_def total_def by blast
qed

lemma copy_scenario_missing:
  assumes "\<not> (truthy iam_role \<and> truthy s3_path)"
  shows "copy_scenario conn s3_path iam_role n w =
     (Inl (SystemExit 1), w\<lparr>console := console w @ [Params_required]\<rparr>)"
  using assms by (simp add: copy_scenario_def secho_def emit_def)

lemma numeral_5_eq_5: "(5::nat) = Suc (Suc (Suc (Suc (Suc 0))))"
  by simp

lemma those_parse_rows_comp: "those (map (parse_line \<circ> cells_of_row) rows) = Some rows"
  using those_parse_rows [of rows] by simp

lemma copy_scenario_live:
  assumes "truthy iam_role" and "truthy s3_path"
  shows "\<exists>rows. length rows = nat n \<and>
     copy_scenario (Some c) s3_path iam_role n w =
       (Inr (),
        w\<lparr>autocommit := True,
          drawn := drawn w + 103 * nat n,
          reads := reads w + init_reads w + nat n + 5,
          executed := executed w @ init_statements
            @ [(CopyCsv table_name
                  (CsvObject (rstrip_slash (the s3_path))
                     \<lfloor>clock w (reads w + init_reads w + nat n + 1)\<rfloor>)
                  (the iam_role) CHR '';'' 1, [])],
          tables := (tables w)(table_name \<mapsto> \<lparr>schema = staging_schema, contents = rows\<rparr>),
          storage := (storage w)
            (CsvObject (rstrip_slash (the s3_path))
               \<lfloor>clock w (reads w + init_reads w + nat n + 1)\<rfloor> \<mapsto>
             \<lparr>delimiter = CHR '';'',
              file_lines = map TextCell insert_columns # map cells_of_row rows\<rparr>),
          console := console w @ init_lines w
            @ (if logger_debug w then [Debug_insert Copy n] else [])
            @ [Timing Copy n
                 (py_round (fsub (tick w (reads w + init_reads w + nat n + 4)) (tick w (reads w + init_reads w))) 3)
                 (py_round (fsub (tick w (reads w + init_reads w + nat n + 3)) (tick w (reads w + init_reads w + nat n + 2))) 3)]\<rparr>)"
proof -
  define wi where "wi = snd (init_table (Some c) w)"
  have init: "init_table (Some c) w = (Inr (), wi)"
    by (simp add: wi_def init_table_live)
  have wi: "wi = w\<lparr>autocommit := True, reads := reads w + init_reads w,
        executed := executed w @ init_statements,
        tables := (tables w)(table_name \<mapsto> empty_staging),
        console := console w @ init_lines w\<rparr>"
    by (simp add: wi_def init_table_live)
  define w2 where "w2 = snd (time (log_debug (Debug_insert Copy n) wi))"
  have tic: "time (log_debug (Debug_insert Copy n) wi) = (tick w (reads w + init_reads w), w2)"
    by (simp add: w2_def time_def log_debug_def emit_def wi)
  obtain rows w3 where cr: "collect_rows (range_len 0 n) [] w2 = (rows, w3)"
    by (cases "collect_rows (range_len 0 n) [] w2")
  have len: "length rows = nat n"
    using collect_rows_length [of "range_len 0 n" "[]" w2] cr by (simp add: range_len_def)
  have w3: "w3 = w2\<lparr>drawn := drawn w2 + 103 * nat n, reads := reads w2 + nat n\<rparr>"
    using collect_rows_world [of "range_len 0 n" "[]" w2] cr by (simp add: range_len_def)
  define loc where
    "loc = CsvObject (rstrip_slash (the s3_path)) \<lfloor>clock w (reads w + init_reads w + nat n + 1)\<rfloor>"
  define w4 where "w4 = w3\<lparr>reads := reads w3 + 1\<rparr>"
  have now: "datetime_now w3 = (clock w (reads w + init_reads w + nat n + 1), w4)"
    by (simp add: datetime_now_def w4_def w3 w2_def time_def log_debug_def emit_def wi add.commute)
  define w5 where "w5 = to_csv insert_columns rows loc CHR '';'' w4"
  have sto: "storage w5 loc =
      Some \<lparr>delimiter = CHR '';'', file_lines = map TextCell insert_columns # map cells_of_row rows\<rparr>"
    by (simp add: w5_def to_csv_def)
  have tb: "tables w5 table_name = Some empty_staging"
    by (simp add: w5_def to_csv_def w4_def w3 w2_def time_def log_debug_def emit_def wi)
  have srv: "server_exec (CopyCsv table_name loc (the iam_role) CHR '';'' 1, []) (tables w5) (storage w5) =
      Inr ((tables w5)(table_name \<mapsto> \<lparr>schema = staging_schema, contents = rows\<rparr>))"
    by (simp add: sto tb those_parse_rows_comp append_rows_def empty_staging_def)
  have ex: "execute (Some c) (CopyCsv table_name loc (the iam_role) CHR '';'' 1) NoData True w5 =
      (Inr (fsub (tick w5 (reads w5 + 1)) (tick w5 (reads w5))),
       w5\<lparr>autocommit := True, reads := reads w5 + 2,
          executed := executed w5 @ [(CopyCsv table_name loc (the iam_role) CHR '';'' 1, [])],
          tables := (tables w5)(table_name \<mapsto> \<lparr>schema = staging_schema, contents = rows\<rparr>)\<rparr>)"
    by (simp only: execute_NoData srv sum.case)
  have "copy_scenario (Some c) s3_path iam_role n w =
       (Inr (),
        w\<lparr>autocommit := True,
          drawn := drawn w + 103 * nat n,
          reads := reads w + init_reads w + nat n + 5,
          executed := executed w @ init_statements
            @ [(CopyCsv table_name loc (the iam_role) CHR '';'' 1, [])],
          tables := (tables w)(table_name \<mapsto> \<lparr>schema = staging_schema, contents = rows\<rparr>),
          storage := (storage w)(loc \<mapsto>
             \<lparr>delimiter = CHR '';'',
              file_lines = map TextCell insert_columns # map cells_of_row rows\<rparr>),
          console := console w @ init_lines w
            @ (if logger_debug w then [Debug_insert Copy n] else [])
            @ [Timing Copy n
                 (py_round (fsub (tick w (reads w + init_reads w + nat n + 4)) (tick w (reads w + init_reads w))) 3)
                 (py_round (fsub (tick w (reads w + init_reads w + nat n + 3)) (tick w (reads w + init_reads w + nat n + 2))) 3)]\<rparr>)"
    using assms
    apply (simp only: copy_scenario_def Let_def simp_thms if_False init tic cr now
        loc_def [symmetric] w5_def [symmetric] ex prod.case sum.case)
    apply (auto simp: w5_def to_csv_def w4_def w3 w2_def wi time_def log_debug_def emit_def
        secho_def small_numerals numeral_5_eq_5 intro!: world.equality)
    done
  with len show ?thesis unfolding loc_def by blast
qed

section \<open>Connection setup\<close>

lemma resolve_password_cases:
  "\<exists>x. snd (resolve_password w) = w\<lparr>password := x\<rparr> \<and>
     (fst (resolve_password w) = Inl EOFError \<or> (\<exists>pw. fst (resolve_password w) = Inr pw))"
proof (cases "truthy (password w)")
  case True
  then have "resolve_password w = (Inr (the (password w)), w\<lparr>password := password w\<rparr>)"
    by (simp add: resolve_password_def)
  then show ?thesis by (metis fst_conv snd_conv)
next
  case False
  show ?thesis
  proof (cases "truthy (env_password w)")
    case True
    then have "resolve_password w = (Inr (the (env_password w)), w\<lparr>password := env_password w\<rparr>)"
      using False by (simp add: resolve_password_def)
    then show ?thesis by (metis fst_conv snd_conv)
  next
    case nenv: False
    show ?thesis
    proof (cases "prompt_reply w")
      case None
      then have "resolve_password w = (Inl EOFError, w\<lparr>password := env_password w\<rparr>)"
        using False nenv by (simp add: resolve_password_def)
      then show ?thesis by (metis fst_conv snd_conv)
    next
      case (Some p)
      then have "resolve_password w = (Inr p, w\<lparr>password := Some p\<rparr>)"
        using False nenv by (simp add: resolve_password_def)
      then show ?thesis by (metis fst_conv snd_conv)
    qed
  qed
qed

lemma connect_redshift_returns:
  "\<exists>conn x lines.
     connect_redshift h p n u w = (Inr conn, w\<lparr>password := x, console := console w @ lines\<rparr>)
     \<and> (conn = None \<longrightarrow> (\<exists>e pre. lines = pre @ [Error_connect e]))
     \<and> \<not> list_ex is_timing lines"
proof -
  define w0 where "w0 = log_debug (Debug_connect u h n) w"
  define dbg where "dbg = (if logger_debug w then [Debug_connect u h n] else [])"
  have w0: "w0 = w\<lparr>console := console w @ dbg\<rparr>"
    by (simp add: w0_def dbg_def log_debug_def emit_def)
  have nt: "\<not> list_ex is_timing dbg" by (simp add: dbg_def)
  obtain x where w1: "snd (resolve_password w0) = w0\<lparr>password := x\<rparr>"
    and r: "fst (resolve_password w0) = Inl EOFError \<or> (\<exists>pw. fst (resolve_password w0) = Inr pw)"
    using resolve_password_cases [of w0] by blast
  from r show ?thesis
  proof
    assume "fst (resolve_password w0) = Inl EOFError"
    then have rp: "resolve_password w0 = (Inl EOFError, w0\<lparr>password := x\<rparr>)"
      using w1 by (metis prod.collapse)
    have "connect_redshift h p n u w =
        (Inr None, w\<lparr>password := x, console := console w @ (dbg @ [Error_connect EOFError])\<rparr>)"
      by (simp only: connect_redshift_def Let_def w0_def [symmetric] rp prod.case sum.case
          is_Exception.simps if_True)
         (simp add: log_error_def emit_def w0)
    then show ?thesis using nt by (intro exI conjI) (assumption, blast, simp)
  next
    assume "\<exists>pw. fst (resolve_password w0) = Inr pw"
    then obtain pw where "fst (resolve_password w0) = Inr pw" by blast
    then have rp: "resolve_password w0 = (Inr pw, w0\<lparr>password := x\<rparr>)"
      using w1 by (metis prod.collapse)
    let ?rq = "\<lparr>req_dbname = n, req_host = h, req_port = p, req_user = u,
                    req_password = pw, req_sslmode = ''require''\<rparr>"
    show ?thesis
    proof (cases "dial w ?rq")
      case True
      then have "connect_redshift h p n u w =
          (Inr (Some (Connection ?rq)), w\<lparr>password := x, console := console w @ dbg\<rparr>)"
        by (simp only: connect_redshift_def Let_def w0_def [symmetric] rp prod.case sum.case)
           (simp add: psycopg2_connect_def w0)
      then show ?thesis using nt by (intro exI conjI) (assumption, simp, simp)
    next
      case False
      then have "connect_redshift h p n u w =
          (Inr None, w\<lparr>password := x, console := console w @ (dbg @ [Error_connect OperationalError])\<rparr>)"
        by (simp only: connect_redshift_def Let_def w0_def [symmetric] rp prod.case sum.case)
           (simp add: psycopg2_connect_def log_error_def emit_def w0)
      then show ?thesis using nt by (intro exI conjI) (assumption, blast, simp)
    qed
  qed
qed

lemma connect_fails_None:
  assumes "connect_fails h p n u w"
  shows "fst (connect_redshift h p n u w) = Inr None"
proof -
  obtain r w1 where rp: "resolve_password (log_debug (Debug_connect u h n) w) = (r, w1)"
    by (cases "resolve_password (log_debug (Debug_connect u h n) w)")
  have "r = Inl EOFError \<or> (\<exists>pw. r = Inr pw)"
    using resolve_password_cases [of "log_debug (Debug_connect u h n) w"] rp by simp
  then show ?thesis
  proof
    assume "r = Inl EOFError"
    then show ?thesis by (simp add: connect_redshift_def Let_def rp)
  next
    assume "\<exists>pw. r = Inr pw"
    then obtain pw where r: "r = Inr pw" by blast
    then show ?thesis
      using assms by (simp add: connect_redshift_def Let_def rp connect_fails_def psycopg2_connect_def)
  qed
qed

lemma session_frame:
  "\<exists>conn x lines.
     handle a w = Inr conn \<and>
     session a w = w\<lparr>logger_debug := debug a, password := x, console := console w @ lines,
                     entropy := prng w 1, drawn := 0\<rparr> \<and>
     (conn = None \<longrightarrow> (\<exists>e pre. lines = pre @ [Error_connect e])) \<and>
     \<not> list_ex is_timing lines"
proof -
  obtain conn x lines where
    c: "connect_redshift (db_host a) (db_port a) (db_name a) (db_user a) (init_logger (debug a) w) =
        (Inr conn, (init_logger (debug a) w)\<lparr>password := x,
           console := console (init_logger (debug a) w) @ lines\<rparr>)"
    and n: "conn = None \<longrightarrow> (\<exists>e pre. lines = pre @ [Error_connect e])"
    and t: "\<not> list_ex is_timing lines"
    using connect_redshift_returns [of "db_host a" "db_port a" "db_name a" "db_user a"
        "init_logger (debug a) w"] by blast
  have "handle a w = Inr conn" by (simp only: handle_def c fst_conv)
  moreover have "session a w = w\<lparr>logger_debug := debug a, password := x,
      console := console w @ lines, entropy := prng w 1, drawn := 0\<rparr>"
    by (simp only: session_def c snd_conv) (simp add: seed_def init_logger_def)
  ultimately show ?thesis using n t by blast
qed

lemma session_fields [simp]:
  "executed (session a w) = executed w"
  "tables (session a w) = tables w"
  "storage (session a w) = storage w"
  "clock (session a w) = clock w"
  "reads (session a w) = reads w"
  "logger_debug (session a w) = debug a"
  "drawn (session a w) = 0"
  using session_frame [of a w] by auto

lemma insert_cmd_session:
  assumes "handle a w = Inr conn"
  shows "insert_cmd a w =
     (case (if scenario a \<in> {Bulk, All}
            then bulk_scenario conn (nbr_of_records a) (session a w)
            else (Inr (), session a w)) of
        (Inl e, w2) \<Rightarrow> (Inl e, w2)
      | (Inr u, w2) \<Rightarrow>
          (case (if scenario a \<in> {Copy, All}
                 then copy_scenario conn (copy_s3_path a) (copy_iam_role a)
                        (nbr_of_records a) w2
                 else (Inr (), w2)) of
             (Inl e, w3) \<Rightarrow> (Inl e, w3)
           | (Inr u, w3) \<Rightarrow>
               (if scenario a \<in> {Classic, All}
                then classic_scenario conn (nbr_of_records a) w3
                else (Inr (), w3))))"
proof -
  obtain r w1 where c: "connect_redshift (db_host a) (db_port a) (db_name a) (db_user a)
      (init_logger (debug a) w) = (r, w1)"
    by (cases "connect_redshift (db_host a) (db_port a) (db_name a) (db_user a)
      (init_logger (debug a) w)")
  have r: "r = Inr conn" using assms c by (simp add: handle_def)
  have s: "session a w = seed 1 w1" using c by (simp add: session_def)
  show ?thesis
    by (simp only: insert_cmd_def c r s prod.case sum.case)
qed

lemma bulk_scenario_None: "fst (bulk_scenario None n w) = Inl AttributeError"
  "executed (snd (bulk_scenario None n w)) = executed w"
  by (simp_all add: bulk_scenario_def init_table_None log_debug_def emit_def)

lemma classic_scenario_None: "fst (classic_scenario None n w) = Inl AttributeError"
  "executed (snd (classic_scenario None n w)) = executed w"
  by (simp_all add: classic_scenario_def init_table_None log_debug_def emit_def secho_def Let_def)

lemma copy_scenario_None:
  "fst (copy_scenario None s3 role n w) =
     (if truthy role \<and> truthy s3 then Inl AttributeError else Inl (SystemExit 1))"
  "executed (snd (copy_scenario None s3 role n w)) = executed w"
  by (simp_all add: copy_scenario_def init_table_None log_debug_def emit_def secho_def)

lemma handle_demo: "handle (demo_args s n) demo_world = Inr (Some demo_conn)"
  by (simp add: handle_def connect_redshift_def resolve_password_def psycopg2_connect_def
      log_debug_def init_logger_def demo_args_def demo_world_def demo_conn_def accept_all_def
      Let_def)

lemma handle_bare: "handle (bare_args s n) demo_world = Inr (Some demo_conn)"
  by (simp add: handle_def connect_redshift_def resolve_password_def psycopg2_connect_def
      log_debug_def init_logger_def bare_args_def demo_args_def demo_world_def demo_conn_def
      accept_all_def Let_def)

lemma connect_fails_offline:
  "connect_fails (db_host (demo_args s n)) (db_port (demo_args s n)) (db_name (demo_args s n))
     (db_user (demo_args s n)) (init_logger (debug (demo_args s n)) offline_world)"
  by (simp add: connect_fails_def resolve_password_def log_debug_def init_logger_def
      demo_args_def offline_world_def demo_world_def refuse_all_def Let_def)

lemma insert_cmd_None:
  assumes "handle a w = Inr None"
  shows "fst (insert_cmd a w) =
           (if scenario a = Copy \<and> \<not> (truthy (copy_iam_role a) \<and> truthy (copy_s3_path a))
            then Inl (SystemExit 1) else Inl AttributeError)"
    and "executed (snd (insert_cmd a w)) = executed w"
proof -
  note ic = insert_cmd_session [OF assms]
  show "fst (insert_cmd a w) =
           (if scenario a = Copy \<and> \<not> (truthy (copy_iam_role a) \<and> truthy (copy_s3_path a))
            then Inl (SystemExit 1) else Inl AttributeError)"
  proof (cases "scenario a")
    case All
    obtain r w2 where b: "bulk_scenario None (nbr_of_records a) (session a w) = (r, w2)"
      by (cases "bulk_scenario None (nbr_of_records a) (session a w)")
    have "r = Inl AttributeError" using bulk_scenario_None(1) [of "nbr_of_records a" "session a w"] b by simp
    then show ?thesis using All b by (simp add: ic)
  next
    case Bulk
    obtain r w2 where b: "bulk_scenario None (nbr_of_records a) (session a w) = (r, w2)"
      by (cases "bulk_scenario None (nbr_of_records a) (session a w)")
    have "r = Inl AttributeError" using bulk_scenario_None(1) [of "nbr_of_records a" "session a w"] b by simp
    then show ?thesis using Bulk b by (simp add: ic)
  next
    case Classic
    then show ?thesis by (simp add: ic classic_scenario_None)
  next
    case Copy
    obtain r w2 where b: "copy_scenario None (copy_s3_path a) (copy_iam_role a) (nbr_of_records a)
        (session a w) = (r, w2)"
      by (cases "copy_scenario None (copy_s3_path a) (copy_iam_role a) (nbr_of_records a)
        (session a w)")
    have "r = (if truthy (copy_iam_role a) \<and> truthy (copy_s3_path a)
               then Inl AttributeError else Inl (SystemExit 1))"
      using copy_scenario_None(1) [of "copy_s3_path a" "copy_iam_role a" "nbr_of_records a" "session a w"] b
      by simp
    then show ?thesis using Copy b by (auto simp: ic)
  qed
  show "executed (snd (insert_cmd a w)) = executed w"
  proof (cases "scenario a")
    case All
    obtain r w2 where b: "bulk_scenario None (nbr_of_records a) (session a w) = (r, w2)"
      by (cases "bulk_scenario None (nbr_of_records a) (session a w)")
    have "r = Inl AttributeError" "executed w2 = executed w"
      using bulk_scenario_None [of "nbr_of_records a" "session a w"] b by simp_all
    then show ?thesis using All b by (simp add: ic)
  next
    case Bulk
    obtain r w2 where b: "bulk_scenario None (nbr_of_records a) (session a w) = (r, w2)"
      by (cases "bulk_scenario None (nbr_of_records a) (session a w)")
    have "r = Inl AttributeError" "executed w2 = executed w"
      using bulk_scenario_None [of "nbr_of_records a" "session a w"] b by simp_all
    then show ?thesis using Bulk b by (simp add: ic)
  next
    case Classic
    then show ?thesis by (simp add: ic classic_scenario_None)
  next
    case Copy
    obtain r w2 where b: "copy_scenario None (copy_s3_path a) (copy_iam_role a) (nbr_of_records a)
        (session a w) = (r, w2)"
      by (cases "copy_scenario None (copy_s3_path a) (copy_iam_role a) (nbr_of_records a)
        (session a w)")
    have "r = (if truthy (copy_iam_role a) \<and> truthy (copy_s3_path a)
               then Inl AttributeError else Inl (SystemExit 1))" "executed w2 = executed w"
      using copy_scenario_None [of "copy_s3_path a" "copy_iam_role a" "nbr_of_records a" "session a w"] b
      by simp_all
    then show ?thesis using Copy b by (auto simp: ic)
  qed
qed

lemma connect_log_on_failure:
  assumes "fst (connect_redshift h p n u w) = Inr None"
  shows "\<exists>e pre. console (snd (connect_redshift h p n u w)) = console w @ pre @ [Error_connect e]"
  using connect_redshift_returns [of h p n u w] assms by auto

text \<open>
  C8. When the body of \<open>_connect_redshift\<close> raises (the password prompt fails or the server
  refuses the request), the function returns \<open>None\<close> and its last log line is the error.
  \<open>insert\<close> does not test the handle: the run goes on into the scenarios with \<open>None\<close>, where
  it ends at the parameter check of the copy scenario (exit code 1) or at the first use of
  the handle in \<open>_execute\<close> (\<open>AttributeError\<close>), with no statement sent.
\<close>

theorem connect_failure_continues:
  assumes "connect_fails (db_host a) (db_port a) (db_name a) (db_user a)
             (init_logger (debug a) w)"
  shows "fst (connect_redshift (db_host a) (db_port a) (db_name a) (db_user a)
                (init_logger (debug a) w)) = Inr None \<and>
         (\<exists>e pre. console (snd (connect_redshift (db_host a) (db_port a) (db_name a) (db_user a)
                                   (init_logger (debug a) w)))
                   = console w @ pre @ [Error_connect e]) \<and>
         fst (insert_cmd a w) =
           (if scenario a = Copy \<and> \<not> (truthy (copy_iam_role a) \<and> truthy (copy_s3_path a))
            then Inl (SystemExit 1) else Inl AttributeError) \<and>
         executed (snd (insert_cmd a w)) = executed w"
proof -
  have n: "fst (connect_redshift (db_host a) (db_port a) (db_name a) (db_user a)
                (init_logger (debug a) w)) = Inr None"
    using connect_fails_None [OF assms] .
  then have h: "handle a w = Inr None" by (simp add: handle_def)
  have "\<exists>e pre. console (snd (connect_redshift (db_host a) (db_port a) (db_name a) (db_user a)
                                   (init_logger (debug a) w)))
                   = console w @ pre @ [Error_connect e]"
    using connect_log_on_failure [OF n] by (simp add: init_logger_def)
  then show ?thesis using n insert_cmd_None [OF h] by blast
qed

text \<open>The same on a server that refuses every request, for \<open>-n 5 -s classic\<close>.\<close>

theorem connect_failure_continues_witness:
  "fst (insert_cmd (demo_args Classic 5) offline_world) = Inl AttributeError \<and>
   executed (snd (insert_cmd (demo_args Classic 5) offline_world)) = []"
  using connect_failure_continues [OF connect_fails_offline [of Classic 5]]
  by (simp add: demo_args_def offline_world_def demo_world_def)

section \<open>Runs of the command\<close>

lemma bulk_scenario_empty:
  assumes "n \<le> 0"
  shows "bulk_scenario (Some c) n w =
     (Inl (DatabaseError SyntaxError),
      w\<lparr>autocommit := True, reads := reads w + init_reads w + 2,
        executed := executed w @ init_statements @ [(InsertValues table_name insert_columns, [])],
        tables := (tables w)(table_name \<mapsto> empty_staging),
        console := console w @ init_lines w
          @ (if logger_debug w then [Debug_insert Bulk n] else [])\<rparr>)"
proof -
  have rl: "range_len 0 n = 0" using assms by (simp add: range_len_def)
  show ?thesis
    apply (simp only: bulk_scenario_def init_table_live rl collect_rows.simps prod.case sum.case)
    apply (auto simp: time_def log_debug_def emit_def execute_BulkData_empty small_numerals
        intro!: world.equality)
    done
qed

lemma insert_single_live:
  assumes "handle a w = Inr (Some c)"
  shows "scenario a = Bulk \<Longrightarrow>
           insert_cmd a w = bulk_scenario (Some c) (nbr_of_records a) (session a w)"
    and "scenario a = Copy \<Longrightarrow>
           insert_cmd a w = copy_scenario (Some c) (copy_s3_path a) (copy_iam_role a)
                              (nbr_of_records a) (session a w)"
    and "scenario a = Classic \<Longrightarrow>
           insert_cmd a w = classic_scenario (Some c) (nbr_of_records a) (session a w)"
  by (simp_all add: insert_cmd_session [OF assms] split: prod.splits sum.splits)

lemma count_param_inserts:
  "length (filter is_insert (map (\<lambda>r. (InsertParams n cols, [r])) rows)) = length rows"
  by (induction rows) simp_all

lemma count_value_inserts:
  "length (filter is_insert (map (Pair (InsertValues n cols)) xs)) = length xs"
  by (induction xs) simp_all

lemma init_statements_no_insert: "filter is_insert init_statements = []"
  by (simp add: init_statements_def)

lemma classic_outcome:
  "\<exists>rows. length rows = nat (min n 100 - 1) \<and>
     tables (snd (classic_scenario (Some c) n w)) =
       (tables w)(table_name \<mapsto> \<lparr>schema = staging_schema, contents = rows\<rparr>) \<and>
     (100 < n \<longrightarrow> Clamp_warning 100 \<in> set (console (snd (classic_scenario (Some c) n w))))"
  using classic_scenario_live [of n c w] by auto

lemma classic_executed:
  "\<exists>rows. length rows = nat (min n 100 - 1) \<and>
     executed (snd (classic_scenario (Some c) n w)) =
       executed w @ init_statements
       @ map (\<lambda>r. (InsertParams table_name insert_columns, [r])) rows"
  using classic_scenario_live [of n c w] by auto

lemma classic_returns: "fst (classic_scenario (Some c) n w) = Inr ()"
  using classic_scenario_live [of n c w] by auto

lemma classic_counts:
  assumes "handle a w = Inr (Some c)" and "scenario a = Classic"
  shows "fst (insert_cmd a w) = Inr ()"
    and "length (filter is_insert (executed (snd (insert_cmd a w)))) =
           length (filter is_insert (executed w)) + nat (min (nbr_of_records a) 100 - 1)"
    and "staging_rows (snd (insert_cmd a w)) = Some (nat (min (nbr_of_records a) 100 - 1))"
    and "100 < nbr_of_records a \<Longrightarrow> Clamp_warning 100 \<in> set (console (snd (insert_cmd a w)))"
proof -
  let ?n = "nbr_of_records a"
  have ic: "insert_cmd a w = classic_scenario (Some c) ?n (session a w)"
    using insert_single_live(3) [OF assms] .
  from classic_executed [of ?n c "session a w"] obtain rows where
    len: "length rows = nat (min ?n 100 - 1)"
    and ex: "executed (snd (insert_cmd a w)) = executed w @ init_statements
       @ map (\<lambda>r. (InsertParams table_name insert_columns, [r])) rows"
    unfolding ic by auto
  from classic_outcome [of ?n c "session a w"] obtain rows' where
    len': "length rows' = nat (min ?n 100 - 1)"
    and tb: "tables (snd (insert_cmd a w)) =
       (tables w)(table_name \<mapsto> \<lparr>schema = staging_schema, contents = rows'\<rparr>)"
    and cl: "100 < ?n \<longrightarrow> Clamp_warning 100 \<in> set (console (snd (insert_cmd a w)))"
    unfolding ic by auto
  show "fst (insert_cmd a w) = Inr ()" by (simp add: ic classic_returns)
  show "length (filter is_insert (executed (snd (insert_cmd a w)))) =
           length (filter is_insert (executed w)) + nat (min (nbr_of_records a) 100 - 1)"
    by (simp add: ex count_param_inserts init_statements_no_insert len)
  show "staging_rows (snd (insert_cmd a w)) = Some (nat (min (nbr_of_records a) 100 - 1))"
    by (simp add: tb staging_rows_def len')
  show "100 < nbr_of_records a \<Longrightarrow> Clamp_warning 100 \<in> set (console (snd (insert_cmd a w)))"
    using cl by simp
qed

text \<open>
  C1 fails on the code. The loop of the classic scenario is \<open>for _ in range(1, nbr_of_records)\<close>,
  one round short: \<open>insert -n 5 -s classic\<close> on a server that accepts everything returns
  normally after 4 INSERT statements and leaves 4 rows in the staging table.
\<close>

theorem classic_five_records:
  "fst (insert_cmd (demo_args Classic 5) demo_world) = Inr () \<and>
   length (filter is_insert (executed (snd (insert_cmd (demo_args Classic 5) demo_world)))) = 4 \<and>
   staging_rows (snd (insert_cmd (demo_args Classic 5) demo_world)) = Some 4"
  using classic_counts(1,2,3) [OF handle_demo [of Classic 5]]
  by (simp add: demo_args_def demo_world_def)

text \<open>
  C2 fails on the code in its row count, by the same loop bound. For \<open>insert -n 101 -s classic\<close>
  the count is clamped to 100 and the warning is printed, but 99 INSERT statements run and
  99 rows are in the staging table.
\<close>

theorem classic_clamped_records:
  "fst (insert_cmd (demo_args Classic 101) demo_world) = Inr () \<and>
   Clamp_warning 100 \<in> set (console (snd (insert_cmd (demo_args Classic 101) demo_world))) \<and>
   length (filter is_insert (executed (snd (insert_cmd (demo_args Classic 101) demo_world)))) = 99 \<and>
   staging_rows (snd (insert_cmd (demo_args Classic 101) demo_world)) = Some 99"
  using classic_counts [OF handle_demo [of Classic 101]]
  by (simp add: demo_args_def demo_world_def)

lemma slices_Nil: "slices m [] = []"
  by (simp add: slices.simps)

lemma slices_step:
  assumes "0 < m" and "xs \<noteq> []"
  shows "slices m xs = take m xs # slices m (drop m xs)"
  using assms by (subst slices.simps) simp

lemma slices_bounded:
  assumes "0 < m"
  shows "list_all (\<lambda>s. s \<noteq> [] \<and> length s \<le> m) (slices m xs)"
  using assms
proof (induction m xs rule: slices.induct)
  case (1 m xs)
  show ?case
  proof (cases "xs = []")
    case True
    then show ?thesis by (simp add: slices_Nil)
  next
    case False
    have "list_all (\<lambda>s. s \<noteq> [] \<and> length s \<le> m) (slices m (drop m xs))"
      using "1.IH" "1.prems" False by simp
    then show ?thesis using "1.prems" False by (simp add: slices_step)
  qed
qed

lemma concat_slices:
  assumes "0 < m"
  shows "concat (slices m xs) = xs"
  using assms
proof (induction m xs rule: slices.induct)
  case (1 m xs)
  show ?case
  proof (cases "xs = []")
    case True
    then show ?thesis by (simp add: slices_Nil)
  next
    case False
    have "concat (slices m (drop m xs)) = drop m xs"
      using "1.IH" "1.prems" False by simp
    then show ?thesis using "1.prems" False by (simp add: slices_step)
  qed
qed

lemma length_slices:
  assumes "0 < m"
  shows "length (slices m xs) = (length xs + m - 1) div m"
  using assms
proof (induction m xs rule: slices.induct)
  case (1 m xs)
  show ?case
  proof (cases "xs = []")
    case True
    then show ?thesis using "1.prems" by (simp add: slices_Nil)
  next
    case False
    have ih: "length (slices m (drop m xs)) = (length (drop m xs) + m - 1) div m"
      using "1.IH" "1.prems" False by simp
    have pos: "0 < length xs" using False by simp
    have "(length xs + m - 1) div m = Suc ((length xs - m + m - 1) div m)"
    proof (cases "m \<le> length xs")
      case True
      have e1: "length xs + m - 1 = (length xs - 1) + m"
        using pos by arith
      have e2: "length xs - m + m - 1 = length xs - 1"
        using True by arith
      have "m \<noteq> 0" using "1.prems" by simp
      then have "((length xs - 1) + m) div m = (length xs - 1) div m + 1"
        by (rule div_add_self2)
      then show ?thesis
        by (simp only: e1 e2 Suc_eq_plus1)
    next
      case less: False
      have a: "(length xs + m - 1) div m = 1"
      proof -
        have "m \<le> length xs + m - 1" using pos by arith
        moreover have "length xs + m - 1 < 2 * m" using less by arith
        ultimately show ?thesis
          using "1.prems" by (simp add: div_nat_eqI)
      qed
      have "(length xs - m + m - 1) div m = 0" using less "1.prems" by simp
      then show ?thesis using a by simp
    qed
    then show ?thesis using ih "1.prems" False by (simp add: slices_step)
  qed
qed

lemma ceiling_as_div:
  assumes "0 < m"
  shows "nat \<lceil>(of_nat k :: rat) / of_nat m\<rceil> = (k + m - 1) div m"
proof -
  have "\<lceil>(of_nat k :: rat) / of_nat m\<rceil> = int ((k + m - 1) div m)"
  proof (rule ceiling_unique)
    have le: "m * ((k + m - 1) div m) \<le> k + m - 1" by simp
    have lt: "k + m - 1 < m * ((k + m - 1) div m) + m"
      using assms by (metis add.commute dividend_less_times_div mult.commute)
    have "k \<le> m * ((k + m - 1) div m)"
      using lt assms by linarith
    then have "(of_nat k :: rat) \<le> of_nat (m * ((k + m - 1) div m))"
      by (simp only: of_nat_le_iff)
    then show "(of_nat k :: rat) / of_nat m \<le> of_int (int ((k + m - 1) div m))"
      using assms by (simp add: divide_le_eq mult.commute)
    have "m * ((k + m - 1) div m) < k + m" using le assms by linarith
    then have "(of_nat (m * ((k + m - 1) div m)) :: rat) < of_nat (k + m)"
      by (simp only: of_nat_less_iff)
    then show "of_int (int ((k + m - 1) div m)) - 1 < (of_nat k :: rat) / of_nat m"
      using assms by (simp add: less_divide_eq algebra_simps)
  qed
  then show ?thesis by simp
qed

lemma timed_append: "timed (xs @ ys) = timed xs @ timed ys"
  by (induction xs rule: timed.induct) simp_all

lemma timed_none: "\<not> list_ex is_timing xs \<Longrightarrow> timed xs = []"
  by (induction xs rule: timed.induct) simp_all

lemma timed_init_lines: "timed (init_lines w) = []"
  by (simp add: init_lines_def)

lemma timed_session: "timed (console (session a w)) = timed (console w)"
  using session_frame [of a w] by (auto simp: timed_append timed_none)

lemma create_count_init: "length (filter is_create init_statements) = 1"
  by (simp add: init_statements_def)

lemma create_count_values: "filter is_create (map (Pair (InsertValues n cols)) xs) = []"
  by (induction xs) simp_all

lemma create_count_params: "filter is_create (map (\<lambda>r. (InsertParams n cols, [r])) rows) = []"
  by (induction rows) simp_all

lemma bulk_summary:
  assumes "1 \<le> n"
  shows "fst (bulk_scenario (Some c) n w) = Inr ()"
    and "timed (console (snd (bulk_scenario (Some c) n w))) = timed (console w) @ [Bulk]"
    and "length (filter is_create (executed (snd (bulk_scenario (Some c) n w)))) =
           Suc (length (filter is_create (executed w)))"
    and "\<exists>rows. length rows = nat n \<and>
           executed (snd (bulk_scenario (Some c) n w)) =
             executed w @ init_statements
             @ map (Pair (InsertValues table_name insert_columns)) (slices max_nbr_of_tuples rows)
           \<and> tables (snd (bulk_scenario (Some c) n w)) =
               (tables w)(table_name \<mapsto> \<lparr>schema = staging_schema, contents = rows\<rparr>)"
proof -
  from bulk_scenario_live [OF assms, of c w] obtain rows w' where
    len: "length rows = nat n" and run: "bulk_scenario (Some c) n w = (Inr (), w')"
    and ex: "executed w' = executed w @ init_statements
             @ map (Pair (InsertValues table_name insert_columns)) (slices max_nbr_of_tuples rows)"
    and tb: "tables w' = (tables w)(table_name \<mapsto> \<lparr>schema = staging_schema, contents = rows\<rparr>)"
    and co: "\<exists>t1 t2. console w' = console w @ init_lines w
            @ (if logger_debug w then [Debug_insert Bulk n] else []) @ [Timing Bulk n t1 t2]"
    by fastforce
  show "fst (bulk_scenario (Some c) n w) = Inr ()" by (simp add: run)
  show "timed (console (snd (bulk_scenario (Some c) n w))) = timed (console w) @ [Bulk]"
    using co by (auto simp: run timed_append timed_init_lines)
  show "length (filter is_create (executed (snd (bulk_scenario (Some c) n w)))) =
           Suc (length (filter is_create (executed w)))"
    by (simp add: run ex create_count_init create_count_values)
  show "\<exists>rows. length rows = nat n \<and>
           executed (snd (bulk_scenario (Some c) n w)) =
             executed w @ init_statements
             @ map (Pair (InsertValues table_name insert_columns)) (slices max_nbr_of_tuples rows)
           \<and> tables (snd (bulk_scenario (Some c) n w)) =
               (tables w)(table_name \<mapsto> \<lparr>schema = staging_schema, contents = rows\<rparr>)"
    using len ex tb by (auto simp: run)
qed

lemma copy_summary:
  assumes "truthy iam_role" and "truthy s3_path"
  shows "fst (copy_scenario (Some c) s3_path iam_role n w) = Inr ()"
    and "timed (console (snd (copy_scenario (Some c) s3_path iam_role n w))) =
           timed (console w) @ [Copy]"
    and "length (filter is_create (executed (snd (copy_scenario (Some c) s3_path iam_role n w)))) =
           Suc (length (filter is_create (executed w)))"
    and "length (filter is_insert (executed (snd (copy_scenario (Some c) s3_path iam_role n w)))) =
           length (filter is_insert (executed w))"
proof -
  note live = copy_scenario_live [OF assms, of n c w]
  show "fst (copy_scenario (Some c) s3_path iam_role n w) = Inr ()"
    using live by auto
  show "timed (console (snd (copy_scenario (Some c) s3_path iam_role n w))) =
           timed (console w) @ [Copy]"
    using live by (auto simp: timed_append timed_init_lines)
  show "length (filter is_create (executed (snd (copy_scenario (Some c) s3_path iam_role n w)))) =
           Suc (length (filter is_create (executed w)))"
    using live by (auto simp: create_count_init)
  show "length (filter is_insert (executed (snd (copy_scenario (Some c) s3_path iam_role n w)))) =
           length (filter is_insert (executed w))"
    using live by (auto simp: init_statements_no_insert)
qed

lemma classic_summary:
  shows "fst (classic_scenario (Some c) n w) = Inr ()"
    and "timed (console (snd (classic_scenario (Some c) n w))) = timed (console w) @ [Classic]"
    and "length (filter is_create (executed (snd (classic_scenario (Some c) n w)))) =
           Suc (length (filter is_create (executed w)))"
proof -
  from classic_scenario_live [of n c w] obtain rows w' where
    len: "length rows = nat (min n 100 - 1)"
    and run: "classic_scenario (Some c) n w = (Inr (), w')"
    and ex: "executed w' = executed w @ init_statements
            @ map (\<lambda>r. (InsertParams table_name insert_columns, [r])) rows"
    and co: "\<exists>t1 t2. console w' = console w
            @ (if n > 100 then [Clamp_warning 100] else [])
            @ init_lines w
            @ (if logger_debug w then [Debug_classic] else [])
            @ [Timing Classic (min n 100) t1 t2]"
    by fastforce
  show "fst (classic_scenario (Some c) n w) = Inr ()" by (simp add: run)
  show "timed (console (snd (classic_scenario (Some c) n w))) = timed (console w) @ [Classic]"
    using co by (auto simp: run timed_append timed_init_lines)
  show "length (filter is_create (executed (snd (classic_scenario (Some c) n w)))) =
           Suc (length (filter is_create (executed w)))"
    by (simp add: run ex create_count_init create_count_params)
qed

lemma insert_all_live:
  assumes "handle a w = Inr (Some c)" and "scenario a = All"
  shows "1 \<le> nbr_of_records a \<Longrightarrow> truthy (copy_iam_role a) \<Longrightarrow> truthy (copy_s3_path a) \<Longrightarrow>
     insert_cmd a w =
       classic_scenario (Some c) (nbr_of_records a)
         (snd (copy_scenario (Some c) (copy_s3_path a) (copy_iam_role a) (nbr_of_records a)
            (snd (bulk_scenario (Some c) (nbr_of_records a) (session a w)))))"
    and "1 \<le> nbr_of_records a \<Longrightarrow> \<not> (truthy (copy_iam_role a) \<and> truthy (copy_s3_path a)) \<Longrightarrow>
     insert_cmd a w =
       (Inl (SystemExit 1),
        (snd (bulk_scenario (Some c) (nbr_of_records a) (session a w)))
          \<lparr>console := console (snd (bulk_scenario (Some c) (nbr_of_records a) (session a w)))
                      @ [Params_required]\<rparr>)"
    and "nbr_of_records a \<le> 0 \<Longrightarrow>
     insert_cmd a w = bulk_scenario (Some c) (nbr_of_records a) (session a w)"
proof -
  note ic = insert_cmd_session [OF assms(1)]
  {
    assume n: "1 \<le> nbr_of_records a"
    obtain r wb where b: "bulk_scenario (Some c) (nbr_of_records a) (session a w) = (r, wb)"
      by (cases "bulk_scenario (Some c) (nbr_of_records a) (session a w)")
    have r: "r = Inr ()" using bulk_summary(1) [OF n, of c "session a w"] b by simp
    {
      assume p: "truthy (copy_iam_role a)" "truthy (copy_s3_path a)"
      obtain r2 wc where cp: "copy_scenario (Some c) (copy_s3_path a) (copy_iam_role a)
          (nbr_of_records a) wb = (r2, wc)"
        by (cases "copy_scenario (Some c) (copy_s3_path a) (copy_iam_role a)
          (nbr_of_records a) wb")
      have r2: "r2 = Inr ()" using copy_summary(1) [OF p, of c "nbr_of_records a" wb] cp by simp
      show "insert_cmd a w =
       classic_scenario (Some c) (nbr_of_records a)
         (snd (copy_scenario (Some c) (copy_s3_path a) (copy_iam_role a) (nbr_of_records a)
            (snd (bulk_scenario (Some c) (nbr_of_records a) (session a w)))))"
        by (simp add: ic assms(2) b r cp r2)
    }
    {
      assume p: "\<not> (truthy (copy_iam_role a) \<and> truthy (copy_s3_path a))"
      show "insert_cmd a w =
       (Inl (SystemExit 1),
        (snd (bulk_scenario (Some c) (nbr_of_records a) (session a w)))
          \<lparr>console := console (snd (bulk_scenario (Some c) (nbr_of_records a) (session a w)))
                      @ [Params_required]\<rparr>)"
        by (simp add: ic assms(2) b r copy_scenario_missing [OF p])
    }
  }
  {
    assume n: "nbr_of_records a \<le> 0"
    show "insert_cmd a w = bulk_scenario (Some c) (nbr_of_records a) (session a w)"
      by (simp add: ic assms(2) bulk_scenario_empty [OF n])
  }
qed

lemma bulk_counts:
  assumes "handle a w = Inr (Some c)" and "scenario a = Bulk" and "1 \<le> nbr_of_records a"
  shows "fst (insert_cmd a w) = Inr ()"
    and "length (filter is_insert (executed (snd (insert_cmd a w)))) =
           length (filter is_insert (executed w))
           + nat \<lceil>(of_int (nbr_of_records a) :: rat) / 50000\<rceil>"
    and "list_all (\<lambda>st. length (snd st) \<le> 50000)
           (drop (length (executed w)) (executed (snd (insert_cmd a w))))"
    and "staging_rows (snd (insert_cmd a w)) = Some (nat (nbr_of_records a))"
proof -
  let ?n = "nbr_of_records a"
  have ic: "insert_cmd a w = bulk_scenario (Some c) ?n (session a w)"
    using insert_single_live(1) [OF assms(1,2)] .
  from bulk_summary(4) [OF assms(3), of c "session a w"] obtain rows where
    len: "length rows = nat ?n"
    and ex: "executed (snd (insert_cmd a w)) = executed w @ init_statements
             @ map (Pair (InsertValues table_name insert_columns)) (slices max_nbr_of_tuples rows)"
    and tb: "tables (snd (insert_cmd a w)) =
               (tables w)(table_name \<mapsto> \<lparr>schema = staging_schema, contents = rows\<rparr>)"
    unfolding ic by auto
  have m: "0 < max_nbr_of_tuples" by (simp add: max_nbr_of_tuples_def)
  show "fst (insert_cmd a w) = Inr ()"
    using bulk_summary(1) [OF assms(3), of c "session a w"] by (simp add: ic)
  have c: "nat \<lceil>(of_nat (nat ?n) :: rat) / of_nat max_nbr_of_tuples\<rceil> =
      (nat ?n + max_nbr_of_tuples - 1) div max_nbr_of_tuples"
    by (rule ceiling_as_div [OF m])
  have e1: "(of_int ?n :: rat) = of_nat (nat ?n)" using assms(3) by simp
  have e2: "(50000::rat) = of_nat max_nbr_of_tuples" by (simp add: max_nbr_of_tuples_def)
  have cnt: "nat \<lceil>(of_int ?n :: rat) / 50000\<rceil> = length (slices max_nbr_of_tuples rows)"
    by (simp only: e1 e2 c length_slices [OF m] len)
  show "length (filter is_insert (executed (snd (insert_cmd a w)))) =
           length (filter is_insert (executed w))
           + nat \<lceil>(of_int (nbr_of_records a) :: rat) / 50000\<rceil>"
    by (simp only: cnt) (simp add: ex init_statements_no_insert count_value_inserts)
  have "list_all (\<lambda>s. length s \<le> 50000) (slices max_nbr_of_tuples rows)"
    using slices_bounded [OF m, of rows] by (simp add: list_all_iff max_nbr_of_tuples_def)
  then have "list_all (\<lambda>st. length (snd st) \<le> 50000)
      (map (Pair (InsertValues table_name insert_columns)) (slices max_nbr_of_tuples rows))"
    by (simp add: list_all_iff)
  then show "list_all (\<lambda>st. length (snd st) \<le> 50000)
           (drop (length (executed w)) (executed (snd (insert_cmd a w))))"
    by (simp add: ex init_statements_def)
  show "staging_rows (snd (insert_cmd a w)) = Some (nat (nbr_of_records a))"
    by (simp add: staging_rows_def tb len)
qed

lemma bulk_empty_counts:
  assumes "handle a w = Inr (Some c)" and "scenario a = Bulk" and "nbr_of_records a \<le> 0"
  shows "fst (insert_cmd a w) = Inl (DatabaseError SyntaxError)"
    and "executed (snd (insert_cmd a w)) =
           executed w @ init_statements @ [(InsertValues table_name insert_columns, [])]"
  using insert_single_live(1) [OF assms(1,2)] bulk_scenario_empty [OF assms(3), of c "session a w"]
  by simp_all

text \<open>
  C3 fails on the code at \<open>N = 0\<close>. An empty tuple is false in \<open>if data:\<close> of \<open>_execute\<close>, so
  the bulk scenario sends the text \<open>INSERT ... VALUES\<close> with no tuple after it: one INSERT
  statement where the claim counts \<open>ceil(0/50000) = 0\<close>, which the server rejects, and the run
  ends with that error. (For \<open>N \<ge> 1\<close> the claim holds: \<open>bulk_counts\<close>.)
\<close>

theorem bulk_zero_records:
  "fst (insert_cmd (demo_args Bulk 0) demo_world) = Inl (DatabaseError SyntaxError) \<and>
   filter is_insert (executed (snd (insert_cmd (demo_args Bulk 0) demo_world))) =
     [(InsertValues table_name insert_columns, [])]"
  using bulk_empty_counts [OF handle_demo [of Bulk 0]]
  by (simp add: demo_args_def demo_world_def init_statements_no_insert)

lemma copy_missing_run:
  assumes "scenario a = Copy" and "\<not> (truthy (copy_iam_role a) \<and> truthy (copy_s3_path a))"
  shows "insert_cmd a w =
           (Inl (SystemExit 1), (session a w)\<lparr>console := console (session a w) @ [Params_required]\<rparr>)"
proof -
  obtain conn where h: "handle a w = Inr conn"
    using session_frame [of a w] by blast
  show ?thesis
    by (simp add: insert_cmd_session [OF h] assms(1) copy_scenario_missing [OF assms(2)])
qed

text \<open>
  C4 (as the code has it). When the scenario selector is \<open>copy\<close> and the storage path or the
  role is missing (\<open>None\<close> or empty), the run ends with exit code 1, its last output is the
  error message, and no statement has been sent, whatever the connection setup returned.
\<close>

theorem copy_missing_parameters:
  assumes "scenario a = Copy"
    and "\<not> (truthy (copy_iam_role a) \<and> truthy (copy_s3_path a))"
  shows "fst (insert_cmd a w) = Inl (SystemExit 1) \<and>
         last (console (snd (insert_cmd a w))) = Params_required \<and>
         executed (snd (insert_cmd a w)) = executed w"
  by (simp add: copy_missing_run [OF assms])

text \<open>The same for \<open>-s copy\<close> with neither parameter given.\<close>

theorem copy_missing_parameters_witness:
  "fst (insert_cmd (bare_args Copy 3) demo_world) = Inl (SystemExit 1) \<and>
   last (console (snd (insert_cmd (bare_args Copy 3) demo_world))) = Params_required \<and>
   executed (snd (insert_cmd (bare_args Copy 3) demo_world)) = []"
  using copy_missing_parameters [of "bare_args Copy 3" demo_world]
  by (simp add: bare_args_def demo_args_def demo_world_def)

lemma all_missing_run:
  assumes "handle a w = Inr (Some c)" and "scenario a = All" and "1 \<le> nbr_of_records a"
    and "\<not> (truthy (copy_iam_role a) \<and> truthy (copy_s3_path a))"
  shows "fst (insert_cmd a w) = Inl (SystemExit 1)"
    and "last (console (snd (insert_cmd a w))) = Params_required"
    and "timed (console (snd (insert_cmd a w))) = timed (console w) @ [Bulk]"
    and "\<exists>rows. length rows = nat (nbr_of_records a) \<and>
           executed (snd (insert_cmd a w)) =
             executed w @ init_statements
             @ map (Pair (InsertValues table_name insert_columns)) (slices max_nbr_of_tuples rows)"
proof -
  note run = insert_all_live(2) [OF assms]
  show "fst (insert_cmd a w) = Inl (SystemExit 1)" by (simp add: run)
  show "last (console (snd (insert_cmd a w))) = Params_required" by (simp add: run)
  show "timed (console (snd (insert_cmd a w))) = timed (console w) @ [Bulk]"
    using bulk_summary(2) [OF assms(3), of c "session a w"]
    by (simp add: run timed_append timed_session)
  show "\<exists>rows. length rows = nat (nbr_of_records a) \<and>
           executed (snd (insert_cmd a w)) =
             executed w @ init_statements
             @ map (Pair (InsertValues table_name insert_columns)) (slices max_nbr_of_tuples rows)"
    using bulk_summary(4) [OF assms(3), of c "session a w"] by (auto simp: run)
qed

text \<open>
  C4 as stated fails under the selector \<open>all\<close>, which selects the copy scenario too: the
  parameter check is the first thing of the copy block, and the bulk block runs before it.
  \<open>insert -n 3\<close> (selector \<open>all\<close>) with neither parameter ends with exit code 1 after the
  bulk scenario has sent its statements.
\<close>

theorem all_missing_parameters_after_bulk:
  "fst (insert_cmd (bare_args All 3) demo_world) = Inl (SystemExit 1) \<and>
   executed (snd (insert_cmd (bare_args All 3) demo_world)) \<noteq> []"
  using all_missing_run(1,4) [OF handle_bare [of All 3]]
  by (auto simp: bare_args_def demo_args_def demo_world_def init_statements_def)

lemma copy_statements:
  assumes "truthy iam_role" and "truthy s3_path"
  shows "\<exists>loc. executed (snd (copy_scenario (Some c) s3_path iam_role n w)) =
           executed w @ init_statements @ [(CopyCsv table_name loc (the iam_role) CHR '';'' 1, [])]"
  using copy_scenario_live [OF assms, of n c w] by auto

lemma classic_statements:
  "\<exists>rows. length rows = nat (min n 100 - 1) \<and>
     executed (snd (classic_scenario (Some c) n w)) =
       executed w @ init_statements
       @ map (\<lambda>r. (InsertParams table_name insert_columns, [r])) rows"
  using classic_scenario_live [of n c w] by auto

lemma all_complete_run:
  assumes "handle a w = Inr (Some c)" and "scenario a = All" and "1 \<le> nbr_of_records a"
    and "truthy (copy_iam_role a)" and "truthy (copy_s3_path a)"
  shows "fst (insert_cmd a w) = Inr ()"
    and "timed (console (snd (insert_cmd a w))) = timed (console w) @ [Bulk, Copy, Classic]"
    and "length (filter is_create (executed (snd (insert_cmd a w)))) =
           length (filter is_create (executed w)) + 3"
    and "\<exists>bulk_rows loc classic_rows.
           length bulk_rows = nat (nbr_of_records a) \<and>
           length classic_rows = nat (min (nbr_of_records a) 100 - 1) \<and>
           executed (snd (insert_cmd a w)) =
             executed w
             @ init_statements
             @ map (Pair (InsertValues table_name insert_columns))
                 (slices max_nbr_of_tuples bulk_rows)
             @ init_statements
             @ [(CopyCsv table_name loc (the (copy_iam_role a)) CHR '';'' 1, [])]
             @ init_statements
             @ map (\<lambda>r. (InsertParams table_name insert_columns, [r])) classic_rows"
proof -
  let ?n = "nbr_of_records a"
  define wb where "wb = snd (bulk_scenario (Some c) ?n (session a w))"
  define wc where "wc = snd (copy_scenario (Some c) (copy_s3_path a) (copy_iam_role a) ?n wb)"
  have run: "insert_cmd a w = classic_scenario (Some c) ?n wc"
    using insert_all_live(1) [OF assms] by (simp add: wb_def wc_def)
  note b = bulk_summary [OF assms(3), of c "session a w", folded wb_def]
  note cp = copy_summary [OF assms(4,5), of c ?n wb, folded wc_def]
  note k = classic_summary [of c ?n wc]
  show "fst (insert_cmd a w) = Inr ()" by (simp add: run k(1))
  show "timed (console (snd (insert_cmd a w))) = timed (console w) @ [Bulk, Copy, Classic]"
    by (simp add: run k(2) cp(2) b(2) timed_session)
  show "length (filter is_create (executed (snd (insert_cmd a w)))) =
           length (filter is_create (executed w)) + 3"
    by (simp add: run k(3) cp(3) b(3))
  from b(4) obtain bulk_rows where lb: "length bulk_rows = nat ?n"
    and eb: "executed wb = executed w @ init_statements
             @ map (Pair (InsertValues table_name insert_columns)) (slices max_nbr_of_tuples bulk_rows)"
    by auto
  from copy_statements [OF assms(4,5), of c ?n wb] obtain loc where
    ec: "executed wc = executed wb @ init_statements
           @ [(CopyCsv table_name loc (the (copy_iam_role a)) CHR '';'' 1, [])]"
    unfolding wc_def by blast
  from classic_statements [of ?n c wc] obtain classic_rows where
    lk: "length classic_rows = nat (min ?n 100 - 1)"
    and ek: "executed (snd (insert_cmd a w)) = executed wc @ init_statements
       @ map (\<lambda>r. (InsertParams table_name insert_columns, [r])) classic_rows"
    unfolding run by blast
  have "executed (snd (insert_cmd a w)) =
             executed w
             @ init_statements
             @ map (Pair (InsertValues table_name insert_columns))
                 (slices max_nbr_of_tuples bulk_rows)
             @ init_statements
             @ [(CopyCsv table_name loc (the (copy_iam_role a)) CHR '';'' 1, [])]
             @ init_statements
             @ map (\<lambda>r. (InsertParams table_name insert_columns, [r])) classic_rows"
    by (simp only: ek ec eb append_assoc)
  with lb lk show "\<exists>bulk_rows loc classic_rows.
           length bulk_rows = nat (nbr_of_records a) \<and>
           length classic_rows = nat (min (nbr_of_records a) 100 - 1) \<and>
           executed (snd (insert_cmd a w)) =
             executed w
             @ init_statements
             @ map (Pair (InsertValues table_name insert_columns))
                 (slices max_nbr_of_tuples bulk_rows)
             @ init_statements
             @ [(CopyCsv table_name loc (the (copy_iam_role a)) CHR '';'' 1, [])]
             @ init_statements
             @ map (\<lambda>r. (InsertParams table_name insert_columns, [r])) classic_rows"
    by blast
qed

text \<open>
  C10. Under the selector \<open>all\<close>, on a live connection and with at least one record, the
  scenarios run in the order bulk, copy, classic: with both copy parameters the run returns
  normally, its report lines are those of bulk, copy and classic in this order, and so are
  its statements. With a copy parameter missing the run ends with exit code 1 after the
  report line of the bulk scenario, and the statements of the bulk scenario have been sent.
\<close>

theorem all_runs_bulk_copy_classic:
  assumes "handle a w = Inr (Some c)" and "scenario a = All" and "1 \<le> nbr_of_records a"
  shows "(truthy (copy_iam_role a) \<and> truthy (copy_s3_path a) \<longrightarrow>
           fst (insert_cmd a w) = Inr () \<and>
           timed (console (snd (insert_cmd a w))) = timed (console w) @ [Bulk, Copy, Classic] \<and>
           (\<exists>bulk_rows loc classic_rows.
              length bulk_rows = nat (nbr_of_records a) \<and>
              length classic_rows = nat (min (nbr_of_records a) 100 - 1) \<and>
              executed (snd (insert_cmd a w)) =
                executed w
                @ init_statements
                @ map (Pair (InsertValues table_name insert_columns))
                    (slices max_nbr_of_tuples bulk_rows)
                @ init_statements
                @ [(CopyCsv table_name loc (the (copy_iam_role a)) CHR '';'' 1, [])]
                @ init_statements
                @ map (\<lambda>r. (InsertParams table_name insert_columns, [r])) classic_rows)) \<and>
         (\<not> (truthy (copy_iam_role a) \<and> truthy (copy_s3_path a)) \<longrightarrow>
           fst (insert_cmd a w) = Inl (SystemExit 1) \<and>
           timed (console (snd (insert_cmd a w))) = timed (console w) @ [Bulk] \<and>
           (\<exists>rows. length rows = nat (nbr_of_records a) \<and>
              executed (snd (insert_cmd a w)) =
                executed w @ init_statements
                @ map (Pair (InsertValues table_name insert_columns))
                    (slices max_nbr_of_tuples rows)))"
proof (intro conjI impI)
  assume p: "truthy (copy_iam_role a) \<and> truthy (copy_s3_path a)"
  then have p1: "truthy (copy_iam_role a)" and p2: "truthy (copy_s3_path a)" by simp_all
  note r = all_complete_run [OF assms p1 p2]
  show "fst (insert_cmd a w) = Inr ()" by (rule r(1))
  show "timed (console (snd (insert_cmd a w))) = timed (console w) @ [Bulk, Copy, Classic]"
    by (rule r(2))
  show "\<exists>bulk_rows loc classic_rows.
              length bulk_rows = nat (nbr_of_records a) \<and>
              length classic_rows = nat (min (nbr_of_records a) 100 - 1) \<and>
              executed (snd (insert_cmd a w)) =
                executed w
                @ init_statements
                @ map (Pair (InsertValues table_name insert_columns))
                    (slices max_nbr_of_tuples bulk_rows)
                @ init_statements
                @ [(CopyCsv table_name loc (the (copy_iam_role a)) CHR '';'' 1, [])]
                @ init_statements
                @ map (\<lambda>r. (InsertParams table_name insert_columns, [r])) classic_rows"
    by (rule r(4))
next
  assume p: "\<not> (truthy (copy_iam_role a) \<and> truthy (copy_s3_path a))"
  note r = all_missing_run [OF assms p]
  show "fst (insert_cmd a w) = Inl (SystemExit 1)" by (rule r(1))
  show "timed (console (snd (insert_cmd a w))) = timed (console w) @ [Bulk]" by (rule r(3))
  show "\<exists>rows. length rows = nat (nbr_of_records a) \<and>
              executed (snd (insert_cmd a w)) =
                executed w @ init_statements
                @ map (Pair (InsertValues table_name insert_columns))
                    (slices max_nbr_of_tuples rows)"
    by (rule r(4))
qed

text \<open>Both cases for \<open>-n 3\<close> under \<open>all\<close>: with the copy parameters, and without them.\<close>

theorem all_runs_bulk_copy_classic_witness:
  "fst (insert_cmd (demo_args All 3) demo_world) = Inr () \<and>
   timed (console (snd (insert_cmd (demo_args All 3) demo_world))) = [Bulk, Copy, Classic] \<and>
   fst (insert_cmd (bare_args All 3) demo_world) = Inl (SystemExit 1) \<and>
   timed (console (snd (insert_cmd (bare_args All 3) demo_world))) = [Bulk]"
  using all_runs_bulk_copy_classic [OF handle_demo [of All 3]]
    all_runs_bulk_copy_classic [OF handle_bare [of All 3]]
  by (simp add: bare_args_def demo_args_def demo_world_def)

lemma create_count_run:
  assumes "fst (insert_cmd a w) = Inr ()"
  shows "length (filter is_create (executed (snd (insert_cmd a w)))) =
           length (filter is_create (executed w)) + (if scenario a = All then 3 else 1)"
proof -
  let ?n = "nbr_of_records a"
  obtain conn where h: "handle a w = Inr conn"
    using session_frame [of a w] by blast
  show ?thesis
  proof (cases conn)
    case None
    then show ?thesis using insert_cmd_None(1) [of a w] h assms by (auto split: if_splits)
  next
    case (Some c)
    then have hc: "handle a w = Inr (Some c)" using h by simp
    show ?thesis
    proof (cases "scenario a")
      case Bulk
      have n: "1 \<le> ?n"
      proof (rule ccontr)
        assume "\<not> 1 \<le> ?n"
        then have "?n \<le> 0" by simp
        from bulk_empty_counts(1) [OF hc Bulk this] assms show False by simp
      qed
      show ?thesis
        using bulk_summary(3) [OF n, of c "session a w"] Bulk
        by (simp add: insert_single_live(1) [OF hc Bulk])
    next
      case Copy
      have p: "truthy (copy_iam_role a) \<and> truthy (copy_s3_path a)"
      proof (rule ccontr)
        assume "\<not> (truthy (copy_iam_role a) \<and> truthy (copy_s3_path a))"
        from copy_missing_run [OF Copy this, of w] assms show False by simp
      qed
      then have p1: "truthy (copy_iam_role a)" and p2: "truthy (copy_s3_path a)" by simp_all
      show ?thesis
        using copy_summary(3) [OF p1 p2, of c ?n "session a w"] Copy
        by (simp add: insert_single_live(2) [OF hc Copy])
    next
      case Classic
      show ?thesis
        using classic_summary(3) [of c ?n "session a w"] Classic
        by (simp add: insert_single_live(3) [OF hc Classic])
    next
      case All
      have n: "1 \<le> ?n"
      proof (rule ccontr)
        assume "\<not> 1 \<le> ?n"
        then have le: "?n \<le> 0" by simp
        from insert_all_live(3) [OF hc All le] bulk_scenario_empty [OF le, of c "session a w"] assms
        show False by simp
      qed
      have p: "truthy (copy_iam_role a) \<and> truthy (copy_s3_path a)"
      proof (rule ccontr)
        assume "\<not> (truthy (copy_iam_role a) \<and> truthy (copy_s3_path a))"
        from all_missing_run(1) [OF hc All n this] assms show False by simp
      qed
      then have p1: "truthy (copy_iam_role a)" and p2: "truthy (copy_s3_path a)" by simp_all
      show ?thesis
        using all_complete_run(3) [OF hc All n p1 p2] All by simp
    qed
  qed
qed

lemma init_table_result:
  "fst (init_table (Some c) w) = Inr ()"
  "executed (snd (init_table (Some c) w)) =
     executed w @ [(DropTable table_name, []), (CreateTempTable table_name staging_schema, [])]"
  "tables (snd (init_table (Some c) w)) table_name =
     Some \<lparr>schema = staging_schema, contents = []\<rparr>"
  by (simp_all add: init_table_live init_statements_def empty_staging_def)

text \<open>
  C7. On a live connection \<open>_init_table\<close> returns normally from every state of the server,
  whether the drop succeeds or raises (no such table): it sends the DROP, then the CREATE
  with the fixed schema, and after it the staging table has the identity column \<open>id\<close> and
  the five typed columns, and no rows. A run of \<open>insert\<close> that returns normally has
  initialised the table once for each selected scenario: three times under \<open>all\<close>, once
  otherwise.
\<close>

theorem init_table_recreates:
  "fst (init_table (Some c) w) = Inr () \<and>
   executed (snd (init_table (Some c) w)) =
     executed w @ [(DropTable table_name, []), (CreateTempTable table_name staging_schema, [])] \<and>
   tables (snd (init_table (Some c) w)) table_name =
     Some \<lparr>schema = staging_schema, contents = []\<rparr> \<and>
   staging_schema =
     [(''id'', BigintIdentity 0 1), (''my_integer'', Integer), (''my_smallint'', Smallint),
      (''my_decimal'', Decimal 8 2), (''my_timestamp'', Timestamp), (''my_varchar'', Varchar 100)] \<and>
   (fst (insert_cmd a v) = Inr () \<longrightarrow>
      length (filter is_create (executed (snd (insert_cmd a v)))) =
        length (filter is_create (executed v)) + (if scenario a = All then 3 else 1))"
  using init_table_result [of c w] create_count_run [of a v]
  by (simp add: staging_schema_def)

text \<open>A run under \<open>all\<close> and a run of the classic scenario alone, from an empty server.\<close>

theorem init_table_recreates_witness:
  "fst (insert_cmd (demo_args All 3) demo_world) = Inr () \<and>
   length (filter is_create (executed (snd (insert_cmd (demo_args All 3) demo_world)))) = 3 \<and>
   fst (insert_cmd (demo_args Classic 5) demo_world) = Inr () \<and>
   length (filter is_create (executed (snd (insert_cmd (demo_args Classic 5) demo_world)))) = 1"
proof -
  have a: "fst (insert_cmd (demo_args All 3) demo_world) = Inr ()"
    using all_complete_run(1) [OF handle_demo [of All 3]] by (simp add: demo_args_def)
  have k: "fst (insert_cmd (demo_args Classic 5) demo_world) = Inr ()"
    using classic_counts(1) [OF handle_demo [of Classic 5]] by (simp add: demo_args_def)
  show ?thesis
    using a k init_table_recreates [of demo_conn demo_world "demo_args All 3" demo_world]
      init_table_recreates [of demo_conn demo_world "demo_args Classic 5" demo_world]
    by (simp add: demo_args_def demo_world_def)
qed

lemma copy_file_written:
  assumes "truthy iam_role" and "truthy s3_path"
  shows "\<exists>loc rows. length rows = nat n \<and>
     executed (snd (copy_scenario (Some c) s3_path iam_role n w)) =
       executed w @ init_statements @ [(CopyCsv table_name loc (the iam_role) CHR '';'' 1, [])] \<and>
     storage (snd (copy_scenario (Some c) s3_path iam_role n w)) loc =
       Some \<lparr>delimiter = CHR '';'',
             file_lines = map TextCell insert_columns # map cells_of_row rows\<rparr> \<and>
     tables (snd (copy_scenario (Some c) s3_path iam_role n w)) table_name =
       Some \<lparr>schema = staging_schema, contents = rows\<rparr>"
proof -
  from copy_scenario_live [OF assms, of n c w] obtain rows where
    len: "length rows = nat n"
    and run: "copy_scenario (Some c) s3_path iam_role n w =
       (Inr (),
        w\<lparr>autocommit := True,
          drawn := drawn w + 103 * nat n,
          reads := reads w + init_reads w + nat n + 5,
          executed := executed w @ init_statements
            @ [(CopyCsv table_name
                  (CsvObject (rstrip_slash (the s3_path))
                     \<lfloor>clock w (reads w + init_reads w + nat n + 1)\<rfloor>)
                  (the iam_role) CHR '';'' 1, [])],
          tables := (tables w)(table_name \<mapsto> \<lparr>schema = staging_schema, contents = rows\<rparr>),
          storage := (storage w)
            (CsvObject (rstrip_slash (the s3_path))
               \<lfloor>clock w (reads w + init_reads w + nat n + 1)\<rfloor> \<mapsto>
             \<lparr>delimiter = CHR '';'',
              file_lines = map TextCell insert_columns # map cells_of_row rows\<rparr>),
          console := console w @ init_lines w
            @ (if logger_debug w then [Debug_insert Copy n] else [])
            @ [Timing Copy n
                 (py_round (fsub (tick w (reads w + init_reads w + nat n + 4)) (tick w (reads w + init_reads w))) 3)
                 (py_round (fsub (tick w (reads w + init_reads w + nat n + 3)) (tick w (reads w + init_reads w + nat n + 2))) 3)]\<rparr>)"
    by blast
  show ?thesis
    apply (rule exI [of _ "CsvObject (rstrip_slash (the s3_path))
                     \<lfloor>clock w (reads w + init_reads w + nat n + 1)\<rfloor>"])
    apply (rule exI [of _ rows])
    apply (simp only: run snd_conv)
    apply (simp add: len)
    done
qed

lemma length_cells_of_row: "length (cells_of_row r) = 5"
  by (simp add: cells_of_row_def)

text \<open>
  C6. For a record count \<open>N \<ge> 0\<close>, the copy scenario on a live connection with both
  parameters writes one file, the one its COPY statement names, with the delimiter \<open>;\<close>
  and \<open>N + 1\<close> lines: first the header with the five column names, then one line of five
  fields for each generated row, the rows that the COPY loads into the staging table.
\<close>

theorem copy_writes_csv:
  assumes "handle a w = Inr (Some c)" and "scenario a = Copy"
    and "truthy (copy_iam_role a)" and "truthy (copy_s3_path a)"
    and "0 \<le> nbr_of_records a"
  shows "\<exists>loc f rows.
     executed (snd (insert_cmd a w)) =
       executed w @ init_statements
       @ [(CopyCsv table_name loc (the (copy_iam_role a)) CHR '';'' 1, [])] \<and>
     storage (snd (insert_cmd a w)) loc = Some f \<and>
     delimiter f = CHR '';'' \<and>
     int (length (file_lines f)) = nbr_of_records a + 1 \<and>
     hd (file_lines f) =
       map TextCell [''my_integer'', ''my_smallint'', ''my_decimal'', ''my_timestamp'', ''my_varchar''] \<and>
     tl (file_lines f) = map cells_of_row rows \<and>
     list_all (\<lambda>l. length l = 5) (file_lines f) \<and>
     tables (snd (insert_cmd a w)) table_name = Some \<lparr>schema = staging_schema, contents = rows\<rparr>"
proof -
  let ?n = "nbr_of_records a"
  have ic: "insert_cmd a w =
      copy_scenario (Some c) (copy_s3_path a) (copy_iam_role a) ?n (session a w)"
    using insert_single_live(2) [OF assms(1,2)] .
  from copy_file_written [OF assms(3,4), of ?n c "session a w"] obtain loc rows where
    len: "length rows = nat ?n"
    and ex: "executed (snd (insert_cmd a w)) =
       executed w @ init_statements
       @ [(CopyCsv table_name loc (the (copy_iam_role a)) CHR '';'' 1, [])]"
    and st: "storage (snd (insert_cmd a w)) loc =
       Some \<lparr>delimiter = CHR '';'',
             file_lines = map TextCell insert_columns # map cells_of_row rows\<rparr>"
    and tb: "tables (snd (insert_cmd a w)) table_name =
       Some \<lparr>schema = staging_schema, contents = rows\<rparr>"
    unfolding ic by auto
  let ?f = "\<lparr>delimiter = CHR '';'',
             file_lines = map TextCell insert_columns # map cells_of_row rows\<rparr>"
  have "int (length (file_lines ?f)) = ?n + 1" using len assms(5) by simp
  moreover have "list_all (\<lambda>l. length l = 5) (file_lines ?f)"
    by (simp add: list_all_iff length_cells_of_row insert_columns_def)
  moreover have "hd (file_lines ?f) =
       map TextCell [''my_integer'', ''my_smallint'', ''my_decimal'', ''my_timestamp'', ''my_varchar'']"
    by (simp add: insert_columns_def)
  moreover have "tl (file_lines ?f) = map cells_of_row rows" by simp
  moreover have "delimiter ?f = CHR '';''" by simp
  ultimately show ?thesis using ex st tb by blast
qed

text \<open>The same for \<open>-n 3 -s copy\<close> with both parameters, on a server that accepts everything.\<close>

theorem copy_writes_csv_witness:
  "\<exists>loc f.
     storage (snd (insert_cmd (demo_args Copy 3) demo_world)) loc = Some f \<and>
     delimiter f = CHR '';'' \<and> length (file_lines f) = 4"
proof -
  have "\<exists>loc f rows.
     executed (snd (insert_cmd (demo_args Copy 3) demo_world)) =
       executed demo_world @ init_statements
       @ [(CopyCsv table_name loc (the (copy_iam_role (demo_args Copy 3))) CHR '';'' 1, [])] \<and>
     storage (snd (insert_cmd (demo_args Copy 3) demo_world)) loc = Some f \<and>
     delimiter f = CHR '';'' \<and>
     int (length (file_lines f)) = nbr_of_records (demo_args Copy 3) + 1 \<and>
     hd (file_lines f) =
       map TextCell [''my_integer'', ''my_smallint'', ''my_decimal'', ''my_timestamp'', ''my_varchar''] \<and>
     tl (file_lines f) = map cells_of_row rows \<and>
     list_all (\<lambda>l. length l = 5) (file_lines f) \<and>
     tables (snd (insert_cmd (demo_args Copy 3) demo_world)) table_name =
       Some \<lparr>schema = staging_schema, contents = rows\<rparr>"
    by (rule copy_writes_csv [OF handle_demo [of Copy 3]]) (simp_all add: demo_args_def)
  then obtain loc f where
    "storage (snd (insert_cmd (demo_args Copy 3) demo_world)) loc = Some f"
    "delimiter f = CHR '';''"
    "int (length (file_lines f)) = nbr_of_records (demo_args Copy 3) + 1"
    by blast
  moreover from this have "length (file_lines f) = 4" by (simp add: demo_args_def)
  ultimately show ?thesis by blast
qed

lemma init_table_last_line:
  "last (console (snd (init_table (Some c) w))) =
     Info_create_table (py_round (fdiv (init_time w) 1000) 4)"
  by (simp add: init_table_live init_lines_def)

lemma bulk_last_line:
  assumes "1 \<le> n"
  shows "last (console (snd (bulk_scenario (Some c) n w))) =
     Timing Bulk n
       (py_round (fsub (tick w (reads w + init_reads w + nat n + 3)) (tick w (reads w + init_reads w))) 3)
       (py_round (fsub (tick w (reads w + init_reads w + nat n + 2)) (tick w (reads w + init_reads w + nat n + 1))) 3)"
  using bulk_scenario_live [OF assms, of c w] by auto

lemma copy_last_line:
  assumes "truthy iam_role" and "truthy s3_path"
  shows "last (console (snd (copy_scenario (Some c) s3_path iam_role n w))) =
     Timing Copy n
       (py_round (fsub (tick w (reads w + init_reads w + nat n + 4)) (tick w (reads w + init_reads w))) 3)
       (py_round (fsub (tick w (reads w + init_reads w + nat n + 3)) (tick w (reads w + init_reads w + nat n + 2))) 3)"
  using copy_scenario_live [OF assms, of n c w] by auto

lemma classic_last_line:
  "last (console (snd (classic_scenario (Some c) n w))) =
     Timing Classic (min n 100)
       (py_round (fsub (tick w (reads w + init_reads w + 3 * nat (min n 100 - 1) + 1))
                       (tick w (reads w + init_reads w))) 3)
       (py_round (foldl (\<lambda>acc i. fadd acc
                      (fsub (tick w (reads w + init_reads w + 1 + 3 * i + 2))
                            (tick w (reads w + init_reads w + 1 + 3 * i + 1))))
                    0 [0..<nat (min n 100 - 1)]) 3)"
  using classic_scenario_live [of n c w] by auto

lemma round_half_even_near: "\<bar>x - of_int (round_half_even x)\<bar> \<le> 1 / 2"
proof -
  have "of_int \<lfloor>x\<rfloor> \<le> x" and "x < of_int \<lfloor>x\<rfloor> + 1" by linarith+
  then show ?thesis
    by (auto simp: round_half_even_def Let_def abs_le_iff)
qed

lemma round_decimal_near:
  "\<exists>z. round_decimal x k = of_int z / 10 ^ k \<and> \<bar>round_decimal x k - x\<bar> \<le> 1 / (2 * 10 ^ k)"
proof -
  let ?z = "round_half_even (x * 10 ^ k)"
  have p: "(0::rat) < 10 ^ k" by simp
  have "\<bar>x * 10 ^ k - of_int ?z\<bar> \<le> 1 / 2" by (rule round_half_even_near)
  then have "\<bar>x * 10 ^ k - of_int ?z\<bar> / 10 ^ k \<le> (1 / 2) / 10 ^ k"
    using p by (simp only: divide_le_cancel) simp
  moreover have "\<bar>x * 10 ^ k - of_int ?z\<bar> / 10 ^ k = \<bar>of_int ?z / 10 ^ k - x\<bar>"
  proof -
    have "\<bar>x * 10 ^ k - of_int ?z\<bar> / 10 ^ k = \<bar>(x * 10 ^ k - of_int ?z) / 10 ^ k\<bar>"
      using p by (simp add: abs_divide)
    also have "(x * 10 ^ k - of_int ?z) / 10 ^ k = x - of_int ?z / 10 ^ k"
      using p by (simp add: diff_divide_distrib)
    also have "\<bar>x - of_int ?z / 10 ^ k\<bar> = \<bar>of_int ?z / 10 ^ k - x\<bar>"
      by (rule abs_minus_commute)
    finally show ?thesis .
  qed
  ultimately have "\<bar>round_decimal x k - x\<bar> \<le> 1 / (2 * 10 ^ k)"
    by (simp add: round_decimal_def)
  then show ?thesis by (auto simp: round_decimal_def)
qed

text \<open>
  C9. On a live connection the last line of \<open>_init_table\<close> reports \<open>round(t/1000, 4)\<close>, where
  \<open>t\<close> is the float sum of its statement times: the time of the CREATE alone when the DROP
  raised, the times of DROP and CREATE otherwise. The report line of each scenario carries
  \<open>round(toc - tic, 3)\<close> and \<open>round(sql_time, 3)\<close>, the seconds as they are, where \<open>sql_time\<close>
  is the statement time of the one \<open>_execute\<close> (bulk, copy) or the float sum over the rounds
  of the loop (classic). Every operation is the float operation: \<open>round\<close> gives the double
  nearest to the decimal with that many digits nearest to its argument.
  Clock readings are numbered from \<open>reads w\<close>; \<open>init_reads w\<close> is 3 when the table is missing
  and 4 when it exists.
\<close>

theorem timing_reports:
  "(tables w table_name = None \<longrightarrow>
      last (console (snd (init_table (Some c) w))) =
        Info_create_table
          (py_round (fdiv (fadd 0 (fsub (tick w (reads w + 2)) (tick w (reads w + 1)))) 1000) 4)) \<and>
   (tables w table_name \<noteq> None \<longrightarrow>
      last (console (snd (init_table (Some c) w))) =
        Info_create_table
          (py_round (fdiv (fadd (fadd 0 (fsub (tick w (reads w + 1)) (tick w (reads w))))
                                (fsub (tick w (reads w + 3)) (tick w (reads w + 2)))) 1000) 4)) \<and>
   (1 \<le> n \<longrightarrow>
      last (console (snd (bulk_scenario (Some c) n w))) =
        Timing Bulk n
          (py_round (fsub (tick w (reads w + init_reads w + nat n + 3))
                          (tick w (reads w + init_reads w))) 3)
          (py_round (fsub (tick w (reads w + init_reads w + nat n + 2))
                          (tick w (reads w + init_reads w + nat n + 1))) 3)) \<and>
   (truthy iam_role \<and> truthy s3_path \<longrightarrow>
      last (console (snd (copy_scenario (Some c) s3_path iam_role n w))) =
        Timing Copy n
          (py_round (fsub (tick w (reads w + init_reads w + nat n + 4))
                          (tick w (reads w + init_reads w))) 3)
          (py_round (fsub (tick w (reads w + init_reads w + nat n + 3))
                          (tick w (reads w + init_reads w + nat n + 2))) 3)) \<and>
   last (console (snd (classic_scenario (Some c) n w))) =
     Timing Classic (min n 100)
       (py_round (fsub (tick w (reads w + init_reads w + 3 * nat (min n 100 - 1) + 1))
                       (tick w (reads w + init_reads w))) 3)
       (py_round (foldl (\<lambda>acc i. fadd acc
                      (fsub (tick w (reads w + init_reads w + 1 + 3 * i + 2))
                            (tick w (reads w + init_reads w + 1 + 3 * i + 1))))
                    0 [0..<nat (min n 100 - 1)]) 3) \<and>
   (\<forall>x k. py_round x k = to_double (round_decimal x k) \<and>
      (\<exists>z. round_decimal x k = of_int z / 10 ^ k \<and>
           \<bar>round_decimal x k - x\<bar> \<le> 1 / (2 * 10 ^ k)))"
proof (intro conjI impI allI)
  assume "tables w table_name = None"
  then show "last (console (snd (init_table (Some c) w))) =
        Info_create_table
          (py_round (fdiv (fadd 0 (fsub (tick w (reads w + 2)) (tick w (reads w + 1)))) 1000) 4)"
    by (simp add: init_table_last_line init_time_def)
next
  assume "tables w table_name \<noteq> None"
  then obtain t where "tables w table_name = Some t" by auto
  then show "last (console (snd (init_table (Some c) w))) =
        Info_create_table
          (py_round (fdiv (fadd (fadd 0 (fsub (tick w (reads w + 1)) (tick w (reads w))))
                                (fsub (tick w (reads w + 3)) (tick w (reads w + 2)))) 1000) 4)"
    by (simp add: init_table_last_line init_time_def)
next
  assume "1 \<le> n"
  then show "last (console (snd (bulk_scenario (Some c) n w))) =
        Timing Bulk n
          (py_round (fsub (tick w (reads w + init_reads w + nat n + 3))
                          (tick w (reads w + init_reads w))) 3)
          (py_round (fsub (tick w (reads w + init_reads w + nat n + 2))
                          (tick w (reads w + init_reads w + nat n + 1))) 3)"
    by (rule bulk_last_line)
next
  assume "truthy iam_role \<and> truthy s3_path"
  then show "last (console (snd (copy_scenario (Some c) s3_path iam_role n w))) =
        Timing Copy n
          (py_round (fsub (tick w (reads w + init_reads w + nat n + 4))
                          (tick w (reads w + init_reads w))) 3)
          (py_round (fsub (tick w (reads w + init_reads w + nat n + 3))
                          (tick w (reads w + init_reads w + nat n + 2))) 3)"
    by (simp add: copy_last_line)
next
  show "last (console (snd (classic_scenario (Some c) n w))) =
     Timing Classic (min n 100)
       (py_round (fsub (tick w (reads w + init_reads w + 3 * nat (min n 100 - 1) + 1))
                       (tick w (reads w + init_reads w))) 3)
       (py_round (foldl (\<lambda>acc i. fadd acc
                      (fsub (tick w (reads w + init_reads w + 1 + 3 * i + 2))
                            (tick w (reads w + init_reads w + 1 + 3 * i + 1))))
                    0 [0..<nat (min n 100 - 1)]) 3)"
    by (rule classic_last_line)
next
  fix x k
  show "py_round x k = to_double (round_decimal x k)"
    by (simp add: py_round_def)
next
  fix x :: rat and k
  show "\<exists>z. round_decimal x k = of_int z / 10 ^ k \<and>
           \<bar>round_decimal x k - x\<bar> \<le> 1 / (2 * 10 ^ k)"
    by (rule round_decimal_near)
qed

lemma quarter_create_line:
  "py_round (fdiv (fadd 0 (fsub (tick quarter_world (reads quarter_world + 2))
                                (tick quarter_world (reads quarter_world + 1)))) 1000) 4 =
   to_double (3 / 10000)"
  by code_simp

lemma quarter_exact_division: "round_decimal ((1 / 4) / 1000) 4 = 2 / 10000"
  by code_simp

lemma create_line_examples:
  "py_round (fdiv (1 / 4) 1000) 4 = to_double (3 / 10000)"
  "py_round (fdiv (23 / 4) 1000) 4 = to_double (57 / 10000)"
  "py_round (fdiv (3 / 8) 1000) 4 = to_double (4 / 10000)"
  by code_simp+

lemma used_create_line:
  "py_round (fdiv (fadd (fadd 0 (fsub (tick used_world (reads used_world + 1))
                                      (tick used_world (reads used_world))))
                        (fsub (tick used_world (reads used_world + 3))
                              (tick used_world (reads used_world + 2)))) 1000) 4 =
   to_double (5 / 10000)"
  by code_simp

lemma quarter_bulk_line:
  "py_round (fsub (tick quarter_world (reads quarter_world + init_reads quarter_world + nat 3 + 3))
                  (tick quarter_world (reads quarter_world + init_reads quarter_world))) 3 = 3 / 2"
  "py_round (fsub (tick quarter_world (reads quarter_world + init_reads quarter_world + nat 3 + 2))
                  (tick quarter_world (reads quarter_world + init_reads quarter_world + nat 3 + 1))) 3
   = 1 / 4"
  by code_simp+

lemma quarter_copy_line:
  "py_round (fsub (tick quarter_world (reads quarter_world + init_reads quarter_world + nat 3 + 4))
                  (tick quarter_world (reads quarter_world + init_reads quarter_world))) 3 = 7 / 4"
  "py_round (fsub (tick quarter_world (reads quarter_world + init_reads quarter_world + nat 3 + 3))
                  (tick quarter_world (reads quarter_world + init_reads quarter_world + nat 3 + 2))) 3
   = 1 / 4"
  by code_simp+

lemma quarter_classic_line:
  "py_round (fsub (tick quarter_world
                     (reads quarter_world + init_reads quarter_world + 3 * nat (3 - 1) + 1))
                  (tick quarter_world (reads quarter_world + init_reads quarter_world))) 3 = 7 / 4"
  "py_round (foldl (\<lambda>acc i. fadd acc
                 (fsub (tick quarter_world
                          (reads quarter_world + init_reads quarter_world + 1 + 3 * i + 2))
                       (tick quarter_world
                          (reads quarter_world + init_reads quarter_world + 1 + 3 * i + 1))))
               0 [0..<nat (3 - 1)]) 3 = 1 / 2"
  by code_simp+

text \<open>
  With a clock that advances a quarter of a second per reading. On an empty server the
  CREATE takes 0.25 s and the line shows the double 0.0003: the double \<open>0.25/1000\<close> lies
  above 0.00025, whose exact rounding would be 0.0002. With the table present DROP and
  CREATE take 0.5 s and the line shows 0.0005. With 3 records the bulk scenario takes 1.5 s,
  of which 0.25 s in its statement, the copy scenario 1.75 s, of which 0.25 s in its COPY,
  and the classic scenario 1.75 s, of which 0.5 s in its two statements.
\<close>

theorem timing_reports_witness:
  "last (console (snd (init_table (Some demo_conn) quarter_world))) =
     Info_create_table (to_double (3 / 10000)) \<and>
   last (console (snd (init_table (Some demo_conn) used_world))) =
     Info_create_table (to_double (5 / 10000)) \<and>
   last (console (snd (bulk_scenario (Some demo_conn) 3 quarter_world))) =
     Timing Bulk 3 (3 / 2) (1 / 4) \<and>
   last (console (snd (copy_scenario (Some demo_conn) (Some ''s3://bucket/stage/'')
                         (Some ''arn:role'') 3 quarter_world))) =
     Timing Copy 3 (7 / 4) (1 / 4) \<and>
   last (console (snd (classic_scenario (Some demo_conn) 3 quarter_world))) =
     Timing Classic 3 (7 / 4) (1 / 2)"
proof -
  have n: "tables quarter_world table_name = None"
    by (simp add: quarter_world_def demo_world_def)
  have u: "tables used_world table_name \<noteq> None"
    by (simp add: used_world_def)
  have m: "min (3::int) 100 = 3" by simp
  note q = timing_reports [of quarter_world demo_conn 3 "Some ''arn:role''" "Some ''s3://bucket/stage/''"]
  note r = timing_reports [of used_world demo_conn 3 "Some ''arn:role''" "Some ''s3://bucket/stage/''"]
  have a: "last (console (snd (init_table (Some demo_conn) quarter_world))) =
     Info_create_table (to_double (3 / 10000))"
    using q [THEN conjunct1, THEN mp, OF n] by (simp only: quarter_create_line)
  have b: "last (console (snd (init_table (Some demo_conn) used_world))) =
     Info_create_table (to_double (5 / 10000))"
    using r [THEN conjunct2, THEN conjunct1, THEN mp, OF u] by (simp only: used_create_line)
  have "(1::int) \<le> 3" by simp
  from q [THEN conjunct2, THEN conjunct2, THEN conjunct1, THEN mp, OF this]
  have c: "last (console (snd (bulk_scenario (Some demo_conn) 3 quarter_world))) =
     Timing Bulk 3 (3 / 2) (1 / 4)"
    by (simp only: quarter_bulk_line)
  from q [THEN conjunct2, THEN conjunct2, THEN conjunct2, THEN conjunct2, THEN conjunct1]
  have d: "last (console (snd (classic_scenario (Some demo_conn) 3 quarter_world))) =
     Timing Classic 3 (7 / 4) (1 / 2)"
    by (simp only: quarter_classic_line m)
  have "truthy (Some ''arn:role'') \<and> truthy (Some ''s3://bucket/stage/'')" by simp
  from q [THEN conjunct2, THEN conjunct2, THEN conjunct2, THEN conjunct1, THEN mp, OF this]
  have e: "last (console (snd (copy_scenario (Some demo_conn) (Some ''s3://bucket/stage/'')
                         (Some ''arn:role'') 3 quarter_world))) =
     Timing Copy 3 (7 / 4) (1 / 4)"
    by (simp only: quarter_copy_line)
  from a b c d e show ?thesis by blast
qed

end
